theory Spec2Isabelle
  imports Complex_Main "HOL-Library.Sublist" "HOL-Library.Multiset"
begin

section \<open>Data model (models.py, config.py)\<close>

text \<open>
  The closed enumerations of models.py. Each Python class is a \<open>(str, Enum)\<close>; the
  constructor is the member, and the \<open>_of_string\<close> function below is the call
  \<open>FeedbackType(s)\<close> of the source, which raises ValueError (here: \<open>None\<close>) on a
  string that is no member's value.
\<close>

datatype ProjectType = RESEARCH | PATENT | MIXED

datatype NoveltyRiskLevel = GREEN | YELLOW | RED | UNKNOWN

datatype FeedbackType =
  HELPFUL | NOT_HELPFUL | AGREE | DISAGREE | NEEDS_REVISION | NEEDS_EXPERT

datatype OutputType =
  SIMILARITY | SUMMARY | DRAFT | CLAIM | RECOMMENDATION | COMPARATIVE

datatype ConfidenceLevel = LOW | MEDIUM | HIGH

datatype ActionType =
  PROJECT_CREATED | FILE_UPLOADED | TEXT_EXTRACTED | EVIDENCE_RETRIEVED
  | SIMILARITY_COMPUTED | NOVELTY_CLASSIFIED | DRAFT_OPTIMIZED | CLAIMS_GENERATED
  | FEEDBACK_SUBMITTED | CALIBRATION_UPDATED | COMPLIANCE_CHECK | SYSTEM_STARTUP

text \<open>
  The column \<open>evidence_type\<close> of a similarity score and \<open>source_type\<close> of an evidence
  row are strings that hold "paper" or "patent" (models.py); the two values are the
  two constructors.
\<close>

datatype EvidenceKind = Paper | Patent

definition FeedbackType_of_string :: "string \<Rightarrow> FeedbackType option" where
  "FeedbackType_of_string s =
     (if s = ''HELPFUL'' then Some HELPFUL
      else if s = ''NOT_HELPFUL'' then Some NOT_HELPFUL
      else if s = ''AGREE'' then Some AGREE
      else if s = ''DISAGREE'' then Some DISAGREE
      else if s = ''NEEDS_REVISION'' then Some NEEDS_REVISION
      else if s = ''NEEDS_EXPERT'' then Some NEEDS_EXPERT
      else None)"

definition OutputType_of_string :: "string \<Rightarrow> OutputType option" where
  "OutputType_of_string s =
     (if s = ''SIMILARITY'' then Some SIMILARITY
      else if s = ''SUMMARY'' then Some SUMMARY
      else if s = ''DRAFT'' then Some DRAFT
      else if s = ''CLAIM'' then Some CLAIM
      else if s = ''RECOMMENDATION'' then Some RECOMMENDATION
      else if s = ''COMPARATIVE'' then Some COMPARATIVE
      else None)"

definition ActionType_of_string :: "string \<Rightarrow> ActionType option" where
  "ActionType_of_string s =
     (if s = ''PROJECT_CREATED'' then Some PROJECT_CREATED
      else if s = ''FILE_UPLOADED'' then Some FILE_UPLOADED
      else if s = ''TEXT_EXTRACTED'' then Some TEXT_EXTRACTED
      else if s = ''EVIDENCE_RETRIEVED'' then Some EVIDENCE_RETRIEVED
      else if s = ''SIMILARITY_COMPUTED'' then Some SIMILARITY_COMPUTED
      else if s = ''NOVELTY_CLASSIFIED'' then Some NOVELTY_CLASSIFIED
      else if s = ''DRAFT_OPTIMIZED'' then Some DRAFT_OPTIMIZED
      else if s = ''CLAIMS_GENERATED'' then Some CLAIMS_GENERATED
      else if s = ''FEEDBACK_SUBMITTED'' then Some FEEDBACK_SUBMITTED
      else if s = ''CALIBRATION_UPDATED'' then Some CALIBRATION_UPDATED
      else if s = ''COMPLIANCE_CHECK'' then Some COMPLIANCE_CHECK
      else if s = ''SYSTEM_STARTUP'' then Some SYSTEM_STARTUP
      else None)"

text \<open>
  The settings of config.py that the modelled services read. Thresholds are Python
  floats given by decimal literals; they are the rationals the literals denote.
\<close>

record Settings =
  research_red_threshold :: rat
  research_yellow_threshold :: rat
  patent_red_threshold :: rat
  patent_yellow_threshold :: rat
  compliance_mode :: bool
  audit_logs_enabled :: bool

definition default_settings :: Settings where
  "default_settings =
     \<lparr> research_red_threshold = 80 / 100, research_yellow_threshold = 50 / 100,
       patent_red_threshold = 75 / 100, patent_yellow_threshold = 45 / 100,
       compliance_mode = False, audit_logs_enabled = True \<rparr>"

text \<open>
  The tables. A row keeps the columns the modelled functions read or write; a table is
  the list of its rows in insertion order. Timestamps are clock readings (integers)
  handed to the operation that writes the row, as \<open>datetime.utcnow\<close> is read there.
\<close>

record Project =
  p_id :: int
  p_type :: ProjectType
  p_domain :: "string option"

record CandidateEvidence =
  ce_id :: int
  ce_project_id :: int
  ce_source_type :: EvidenceKind

record IdeaEmbedding =
  ie_project_id :: int
  ie_embedding :: string

record EvidenceEmbedding =
  ee_evidence_id :: int
  ee_embedding :: string

record SimilarityScore =
  ss_project_id :: int
  ss_evidence_id :: int
  ss_score :: int
  ss_evidence_type :: EvidenceKind
  ss_computed_at :: int

record AnalysisState =
  as_project_id :: int
  as_similarity_computed :: bool
  as_novelty_risk :: NoveltyRiskLevel
  as_max_similarity_score :: "int option"
  as_top_evidence_id :: "int option"

record UserFeedback =
  uf_id :: int
  uf_output_id :: string
  uf_output_type :: OutputType
  uf_project_id :: int
  uf_user_id :: "string option"
  uf_user_role :: "string option"
  uf_feedback_type :: FeedbackType
  uf_comment :: "string option"
  uf_created_at :: int
  uf_ip_hash :: "string option"

text \<open>
  The calibration notes are drawn from the fixed catalogue of calibration_service.py;
  each constructor stands for the constant string of that name, and
  \<open>NOTE_PROJECT_NOT_FOUND\<close> for the literal "Project not found".
\<close>

datatype Note =
  NOTE_HIGH_DISAGREEMENT | NOTE_LOW_EVIDENCE | NOTE_HUMAN_REVIEW | NOTE_PATENT_CONTEXT
  | NOTE_NOVELTY_RED | NOTE_LOW_SIMILARITY_CLARITY | NOTE_NO_FEEDBACK | NOTE_MIXED_SIGNALS
  | NOTE_PROJECT_NOT_FOUND

record ConfidenceCalibration =
  cc_project_id :: int
  cc_confidence_level :: ConfidenceLevel
  cc_human_review_recommended :: bool
  cc_disagreement_flag :: bool
  cc_calibration_notes :: "Note list"
  cc_total_feedback_count :: int
  cc_disagreement_count :: int
  cc_evidence_count :: int

record AuditLog =
  al_id :: int
  al_action_type :: ActionType
  al_entity_type :: string
  al_entity_id :: "int option"
  al_user_id :: string
  al_created_at :: int
  al_metadata_json :: "string option"
  al_compliance_mode_active :: bool

record Database =
  projects :: "Project list"
  candidate_evidence :: "CandidateEvidence list"
  idea_embeddings :: "IdeaEmbedding list"
  evidence_embeddings :: "EvidenceEmbedding list"
  similarity_scores :: "SimilarityScore list"
  analysis_states :: "AnalysisState list"
  user_feedback :: "UserFeedback list"
  confidence_calibrations :: "ConfidenceCalibration list"
  audit_logs :: "AuditLog list"

definition empty_db :: Database where
  "empty_db =
     \<lparr> projects = [], candidate_evidence = [], idea_embeddings = [],
       evidence_embeddings = [], similarity_scores = [], analysis_states = [],
       user_feedback = [], confidence_calibrations = [], audit_logs = [] \<rparr>"

text \<open>
  \<open>query(...).filter(...).first()\<close>: the first row of the table that satisfies the
  filter, or None.
\<close>

definition first_where :: "('a \<Rightarrow> bool) \<Rightarrow> 'a list \<Rightarrow> 'a option" where
  "first_where P xs = (case filter P xs of [] \<Rightarrow> None | x # _ \<Rightarrow> Some x)"

text \<open>
  The integer primary key the storage layer gives a new row: one more than the largest
  key in the table (1 in an empty table).
\<close>

definition next_id :: "int list \<Rightarrow> int" where
  "next_id ids = fold max ids 0 + 1"

text \<open>
  Floats. A Python float is an IEEE double; the model holds a float as the rational
  number it is. \<open>float_of x\<close> is the double nearest to the rational \<open>x\<close> (53
  significant bits, a tie to the even significand; the values met here lie far inside
  the normal range, so underflow and overflow are left out): \<open>significand\<close> scales
  \<open>\<bar>x\<bar>\<close> by powers of two into \<open>[2^52, 2^53)\<close>, the scaled value is rounded to an
  integer and scaled back. A float operation of the source is the exact operation
  followed by \<open>float_of\<close>.
\<close>

definition round_half_even :: "rat \<Rightarrow> int" where
  "round_half_even x =
     (let n = \<lfloor>x\<rfloor>; r = x - of_int n
      in if r < 1 / 2 then n
         else if 1 / 2 < r then n + 1
         else if even n then n else n + 1)"

fun significand :: "nat \<Rightarrow> rat \<Rightarrow> int \<Rightarrow> rat \<times> int" where
  "significand 0 m e = (m, e)"
| "significand (Suc fuel) m e =
     (if m < 2 ^ 52 then significand fuel (m * 2) (e - 1)
      else if 2 ^ 53 \<le> m then significand fuel (m / 2) (e + 1)
      else (m, e))"

definition float_of :: "rat \<Rightarrow> rat" where
  "float_of x =
     (if x = 0 then 0
      else let (m, e) = significand 2200 \<bar>x\<bar> 0;
               k = of_int (round_half_even m)
           in sgn x * (if 0 \<le> e then k * 2 ^ nat e else k / 2 ^ nat (- e)))"

text \<open>
  Python's \<open>round(x, 3)\<close> of a float: the binary value of the float is rounded to
  three decimals with a tie to the even digit, and the float nearest that decimal is
  returned. The argument of \<open>round3\<close> is the exact value the source computes in floats
  (a quotient of two counts), so the float is \<open>float_of\<close> of it. So \<open>round(1/80, 3)\<close>
  is the float 0.013, the double nearest 0.0125 lying above it.
\<close>

definition round3 :: "rat \<Rightarrow> rat" where
  "round3 x = float_of (of_int (round_half_even (float_of x * 1000)) / 1000)"

text \<open>Python's \<open>int(x)\<close> on a number: truncation towards zero.\<close>

definition py_int :: "rat \<Rightarrow> int" where
  "py_int x = (if 0 \<le> x then \<lfloor>x\<rfloor> else \<lceil>x\<rceil>)"

text \<open>\<open>str(n)\<close> of an integer, for the messages that quote an id.\<close>

fun str_nat :: "nat \<Rightarrow> string" where
  "str_nat n =
     (if n < 10 then [''0123456789'' ! n]
      else str_nat (n div 10) @ [''0123456789'' ! (n mod 10)])"

definition str_int :: "int \<Rightarrow> string" where
  "str_int i = (if i < 0 then CHR ''-'' # str_nat (nat (- i)) else str_nat (nat i))"

section \<open>Feedback service (feedback_service.py)\<close>

record FeedbackSubmission =
  fs_success :: bool
  fs_feedback_id :: int
  fs_output_id :: string
  fs_feedback_type :: string
  fs_message :: string
  fs_timestamp :: int

record FeedbackSummary =
  sm_output_id :: string
  sm_total_count :: int
  sm_helpful_count :: int
  sm_not_helpful_count :: int
  sm_agree_count :: int
  sm_disagree_count :: int
  sm_needs_revision_count :: int
  sm_needs_expert_count :: int
  sm_disagreement_rate :: rat
  sm_comments :: "string list"

text \<open>The project statistics, without the list \<open>recent_feedback\<close> of display items.\<close>

record ProjectFeedbackStats =
  ps_project_id :: int
  ps_total_feedback :: int
  ps_total_outputs_rated :: int
  ps_overall_disagreement_rate :: rat
  ps_outputs_needing_review :: int

text \<open>
  \<open>hash_ip\<close>: None for a missing or empty address, else the first 32 characters of
  the SHA-256 hex digest, which is the parameter \<open>sha256_hex\<close>.
\<close>

definition hash_ip :: "(string \<Rightarrow> string) \<Rightarrow> string option \<Rightarrow> string option" where
  "hash_ip sha256_hex ip_address =
     (case ip_address of
        None \<Rightarrow> None
      | Some a \<Rightarrow> if a = [] then None else Some (take 32 (sha256_hex a)))"

definition calculate_disagreement_rate :: "int \<Rightarrow> int \<Rightarrow> int \<Rightarrow> int \<Rightarrow> rat" where
  "calculate_disagreement_rate disagree_count agree_count not_helpful_count helpful_count =
     (let total_positive = agree_count + helpful_count;
          total_negative = disagree_count + not_helpful_count;
          total = total_positive + total_negative
      in if total = 0 then 0
         else round3 (of_int total_negative / of_int total))"

text \<open>\<open>sum(1 for f in feedback_list if f.feedback_type == t)\<close>.\<close>

definition count_type :: "FeedbackType \<Rightarrow> UserFeedback list \<Rightarrow> int" where
  "count_type t fl = int (length (filter (\<lambda>f. uf_feedback_type f = t) fl))"

text \<open>
  \<open>order_by(created_at.desc())\<close>: newest first. SQL leaves the order of rows with
  equal timestamps open; SQLite returns them latest row first, and so does the model
  (the table is reversed before the stable sort).
\<close>

definition newest_first :: "('a \<Rightarrow> int) \<Rightarrow> 'a list \<Rightarrow> 'a list" where
  "newest_first created xs = sort_key (\<lambda>r. - created r) (rev xs)"

text \<open>
  \<open>submit_feedback\<close>. The two enumeration checks return an unsuccessful submission
  before anything is written. The insert and commit of the model always succeed, so
  the outer \<open>except\<close> branch (rollback on a storage failure) has no counterpart.
\<close>

definition submit_feedback ::
  "(string \<Rightarrow> string) \<Rightarrow> int \<Rightarrow> Database \<Rightarrow> string \<Rightarrow> string \<Rightarrow> int \<Rightarrow> string
     \<Rightarrow> string option \<Rightarrow> string option \<Rightarrow> string option \<Rightarrow> string option
     \<Rightarrow> FeedbackSubmission \<times> Database" where
  "submit_feedback sha256_hex now db output_id output_type project_id feedback_type
       user_id user_role comment ip_address =
     (case FeedbackType_of_string feedback_type of
        None \<Rightarrow>
          (\<lparr> fs_success = False, fs_feedback_id = 0, fs_output_id = output_id,
             fs_feedback_type = feedback_type,
             fs_message = ''Invalid feedback type: '' @ feedback_type,
             fs_timestamp = now \<rparr>, db)
      | Some fb_type \<Rightarrow>
          (case OutputType_of_string output_type of
             None \<Rightarrow>
               (\<lparr> fs_success = False, fs_feedback_id = 0, fs_output_id = output_id,
                  fs_feedback_type = feedback_type,
                  fs_message = ''Invalid output type: '' @ output_type,
                  fs_timestamp = now \<rparr>, db)
           | Some out_type \<Rightarrow>
               (let feedback =
                      \<lparr> uf_id = next_id (map uf_id (user_feedback db)),
                        uf_output_id = output_id, uf_output_type = out_type,
                        uf_project_id = project_id, uf_user_id = user_id,
                        uf_user_role = user_role, uf_feedback_type = fb_type,
                        uf_comment = comment, uf_created_at = now,
                        uf_ip_hash = hash_ip sha256_hex ip_address \<rparr>
                in (\<lparr> fs_success = True, fs_feedback_id = uf_id feedback,
                       fs_output_id = output_id, fs_feedback_type = feedback_type,
                       fs_message = ''Feedback recorded successfully. Thank you for helping improve the system.'',
                       fs_timestamp = uf_created_at feedback \<rparr>,
                    db\<lparr> user_feedback := user_feedback db @ [feedback] \<rparr>))))"

text \<open>\<open>[f.comment for f in feedback_list if f.comment]\<close>: the non-empty comments.\<close>

definition comments_of :: "UserFeedback list \<Rightarrow> string list" where
  "comments_of fl =
     concat (map (\<lambda>f. case uf_comment f of None \<Rightarrow> [] | Some c \<Rightarrow> if c = [] then [] else [c]) fl)"

definition get_feedback_for_output :: "Database \<Rightarrow> string \<Rightarrow> FeedbackSummary" where
  "get_feedback_for_output db output_id =
     (let feedback_list =
            newest_first uf_created_at
              (filter (\<lambda>f. uf_output_id f = output_id) (user_feedback db));
          helpful = count_type HELPFUL feedback_list;
          not_helpful = count_type NOT_HELPFUL feedback_list;
          agree = count_type AGREE feedback_list;
          disagree = count_type DISAGREE feedback_list;
          needs_revision = count_type NEEDS_REVISION feedback_list;
          needs_expert = count_type NEEDS_EXPERT feedback_list;
          comments = comments_of feedback_list
      in \<lparr> sm_output_id = output_id,
           sm_total_count = int (length feedback_list),
           sm_helpful_count = helpful,
           sm_not_helpful_count = not_helpful,
           sm_agree_count = agree,
           sm_disagree_count = disagree,
           sm_needs_revision_count = needs_revision,
           sm_needs_expert_count = needs_expert,
           sm_disagreement_rate =
             calculate_disagreement_rate disagree agree not_helpful helpful,
           sm_comments = take 10 comments \<rparr>)"

text \<open>
  The disagreement count and rate over a project's feedback, as both
  \<open>get_project_feedback\<close> and \<open>calculate_confidence\<close> compute them:
  \<open>disagree_types = {DISAGREE, NOT_HELPFUL, NEEDS_REVISION}\<close>, divided by the number
  of all the project's records.
\<close>

definition disagree_types :: "FeedbackType set" where
  "disagree_types = {DISAGREE, NOT_HELPFUL, NEEDS_REVISION}"

definition disagreements :: "UserFeedback list \<Rightarrow> int" where
  "disagreements fl = int (length (filter (\<lambda>f. uf_feedback_type f \<in> disagree_types) fl))"

definition get_project_feedback :: "Database \<Rightarrow> int \<Rightarrow> ProjectFeedbackStats" where
  "get_project_feedback db project_id =
     (let feedback_list =
            newest_first uf_created_at
              (filter (\<lambda>f. uf_project_id f = project_id) (user_feedback db));
          unique_outputs = remdups (map uf_output_id feedback_list);
          disagreement_rate =
            (if feedback_list = [] then 0
             else of_int (disagreements feedback_list) / of_int (int (length feedback_list)));
          needs_review = count_type NEEDS_EXPERT feedback_list
      in \<lparr> ps_project_id = project_id,
           ps_total_feedback = int (length feedback_list),
           ps_total_outputs_rated = int (length unique_outputs),
           ps_overall_disagreement_rate = round3 disagreement_rate,
           ps_outputs_needing_review = needs_review \<rparr>)"

section \<open>Confidence calibration (calibration_service.py)\<close>

text \<open>
  The disagreement rate is a quotient of two counts and the thresholds it is compared
  with are short decimals, so each of these comparisons has, in floats, the outcome of
  the exact comparison for every feedback list a store can hold; the rate and the
  thresholds are therefore kept as the exact rationals. Where the float value itself
  matters (rounding to three decimals, the difference of two scores, a product that is
  truncated to an integer) the model computes it with \<open>float_of\<close>.
\<close>

definition EVIDENCE_COUNT_LOW_THRESHOLD :: int where
  "EVIDENCE_COUNT_LOW_THRESHOLD = 3"

definition EVIDENCE_COUNT_MEDIUM_THRESHOLD :: int where
  "EVIDENCE_COUNT_MEDIUM_THRESHOLD = 10"

definition DISAGREEMENT_HIGH_THRESHOLD :: rat where
  "DISAGREEMENT_HIGH_THRESHOLD = 30 / 100"

definition SIMILARITY_CLARITY_THRESHOLD :: rat where
  "SIMILARITY_CLARITY_THRESHOLD = 20 / 100"

text \<open>The set the source declares under "Contexts that never get HIGH confidence".\<close>

definition RESTRICTED_CONTEXTS :: "string set" where
  "RESTRICTED_CONTEXTS = {''PATENT'', ''LEGAL'', ''MEDICAL'', ''FINANCIAL''}"

record Metrics =
  m_evidence_count :: int
  m_novelty_risk :: NoveltyRiskLevel
  m_total_feedback :: int
  m_disagreement_rate :: rat
  m_similarity_clarity :: rat

text \<open>\<open>metrics\<close> is None for the empty dictionary of the "Project not found" result.\<close>

record CalibrationResult =
  confidence_level :: ConfidenceLevel
  human_review_recommended :: bool
  disagreement_flag :: bool
  calibration_notes :: "Note list"
  metrics :: "Metrics option"

definition score_float :: "SimilarityScore \<Rightarrow> rat" where
  "score_float s = of_int (ss_score s) / 10000"

text \<open>
  The block "Apply Rules" of \<open>calculate_confidence\<close>: the \<open>if\<close>/\<open>elif\<close> chain that
  sets \<open>confidence_level\<close>, with the notes each branch appends.
\<close>

definition apply_rules ::
  "NoveltyRiskLevel \<Rightarrow> int \<Rightarrow> rat \<Rightarrow> bool \<Rightarrow> bool \<Rightarrow> ConfidenceLevel \<times> Note list" where
  "apply_rules novelty_risk evidence_count disagreement_rate high_disagreement
       is_restricted_context =
     (if novelty_risk = RED \<and> evidence_count < EVIDENCE_COUNT_LOW_THRESHOLD
        then (LOW, [NOTE_HUMAN_REVIEW])
      else if high_disagreement
        then (LOW, [NOTE_HUMAN_REVIEW])
      else if is_restricted_context
        then (if evidence_count \<ge> EVIDENCE_COUNT_MEDIUM_THRESHOLD \<and> disagreement_rate < 1 / 10
              then (MEDIUM, [])
              else (LOW, [NOTE_HUMAN_REVIEW]))
      else if evidence_count \<ge> EVIDENCE_COUNT_MEDIUM_THRESHOLD \<and> disagreement_rate < 1 / 10
        then (MEDIUM, [])
      else if evidence_count \<ge> EVIDENCE_COUNT_LOW_THRESHOLD
        then (if disagreement_rate < 2 / 10 then (MEDIUM, [])
              else (LOW, [NOTE_MIXED_SIGNALS]))
      else (LOW, [NOTE_HUMAN_REVIEW]))"

text \<open>The quantities \<open>calculate_confidence\<close> reads from the store for a project.\<close>

definition is_restricted_context :: "Project \<Rightarrow> bool" where
  "is_restricted_context project = (p_type project = PATENT)"

definition evidence_count_of :: "Database \<Rightarrow> int \<Rightarrow> int" where
  "evidence_count_of db project_id =
     int (length (filter (\<lambda>e. ce_project_id e = project_id) (candidate_evidence db)))"

definition novelty_risk_of :: "Database \<Rightarrow> int \<Rightarrow> NoveltyRiskLevel" where
  "novelty_risk_of db project_id =
     (case first_where (\<lambda>a. as_project_id a = project_id) (analysis_states db) of
        None \<Rightarrow> UNKNOWN
      | Some analysis_state \<Rightarrow> as_novelty_risk analysis_state)"

definition project_feedback_list :: "Database \<Rightarrow> int \<Rightarrow> UserFeedback list" where
  "project_feedback_list db project_id =
     filter (\<lambda>f. uf_project_id f = project_id) (user_feedback db)"

text \<open>
  The disagreement rate \<open>calculate_confidence\<close> computes: 0 without feedback, else the
  records of a kind in \<open>disagree_types\<close> over all records.
\<close>

definition calibration_disagreement_rate :: "UserFeedback list \<Rightarrow> rat" where
  "calibration_disagreement_rate feedback_list =
     (let total_feedback = int (length feedback_list)
      in if total_feedback = 0 then 0
         else of_int (disagreements feedback_list) / of_int total_feedback)"

text \<open>
  \<open>similarity_clarity\<close>: the distance of the two highest scores among the project's
  five highest (\<open>order_by(score.desc()).limit(5)\<close>), 0 with fewer than two scores.
  Each \<open>score_float\<close> is the float quotient \<open>score / 10000.0\<close> and the difference is a
  float subtraction.
\<close>

definition similarity_clarity_of :: "Database \<Rightarrow> int \<Rightarrow> rat" where
  "similarity_clarity_of db project_id =
     (case take 5 (sort_key (\<lambda>s. - ss_score s)
                    (filter (\<lambda>s. ss_project_id s = project_id) (similarity_scores db))) of
        top_score # second_score # _ \<Rightarrow>
          \<bar>float_of (float_of (score_float top_score) - float_of (score_float second_score))\<bar>
      | _ \<Rightarrow> 0)"

definition calculate_confidence :: "Database \<Rightarrow> int \<Rightarrow> CalibrationResult" where
  "calculate_confidence db project_id =
     (case first_where (\<lambda>p. p_id p = project_id) (projects db) of
        None \<Rightarrow>
          \<lparr> confidence_level = LOW, human_review_recommended = True,
            disagreement_flag = False, calibration_notes = [NOTE_PROJECT_NOT_FOUND],
            metrics = None \<rparr>
      | Some project \<Rightarrow>
          (let restricted = is_restricted_context project;
               notes1 = (if restricted then [NOTE_PATENT_CONTEXT] else []);
               evidence_count = evidence_count_of db project_id;
               notes2 = (if evidence_count < EVIDENCE_COUNT_LOW_THRESHOLD
                         then [NOTE_LOW_EVIDENCE] else []);
               novelty_risk = novelty_risk_of db project_id;
               notes3 = (if novelty_risk = RED then [NOTE_NOVELTY_RED] else []);
               feedback_list = project_feedback_list db project_id;
               total_feedback = int (length feedback_list);
               notes4 = (if total_feedback = 0 then [NOTE_NO_FEEDBACK] else []);
               disagreement_rate = calibration_disagreement_rate feedback_list;
               high_disagreement = (disagreement_rate > DISAGREEMENT_HIGH_THRESHOLD);
               notes5 = (if high_disagreement then [NOTE_HIGH_DISAGREEMENT] else []);
               similarity_clarity = similarity_clarity_of db project_id;
               notes6 = (if 0 < similarity_clarity
                            \<and> similarity_clarity < float_of SIMILARITY_CLARITY_THRESHOLD
                         then [NOTE_LOW_SIMILARITY_CLARITY] else []);
               (level, notes7) =
                 apply_rules novelty_risk evidence_count disagreement_rate
                   high_disagreement restricted
           in \<lparr> confidence_level = level,
                human_review_recommended =
                  (level = LOW \<or> restricted \<or> high_disagreement \<or> novelty_risk = RED),
                disagreement_flag = high_disagreement,
                calibration_notes =
                  notes1 @ notes2 @ notes3 @ notes4 @ notes5 @ notes6 @ notes7,
                metrics =
                  Some \<lparr> m_evidence_count = evidence_count,
                         m_novelty_risk = novelty_risk,
                         m_total_feedback = total_feedback,
                         m_disagreement_rate = round3 disagreement_rate,
                         m_similarity_clarity = round3 similarity_clarity \<rparr> \<rparr>))"

fun update_first :: "('a \<Rightarrow> bool) \<Rightarrow> ('a \<Rightarrow> 'a) \<Rightarrow> 'a list \<Rightarrow> 'a list" where
  "update_first P f [] = []"
| "update_first P f (x # xs) = (if P x then f x # xs else x # update_first P f xs)"

text \<open>
  \<open>get_or_create_calibration\<close>: recalculates, then updates the project's stored row,
  or inserts one when there is none (a new row keeps the column default 0 of
  \<open>disagreement_count\<close>). \<open>metrics.get(k, 0)\<close> is 0 on the empty dictionary. The
  updated \<open>disagreement_count\<close> is the float product of the rounded rate and the
  number of records, truncated.
\<close>

definition get_or_create_calibration :: "Database \<Rightarrow> int \<Rightarrow> CalibrationResult \<times> Database" where
  "get_or_create_calibration db project_id =
     (let result = calculate_confidence db project_id;
          total_feedback = (case metrics result of None \<Rightarrow> 0 | Some m \<Rightarrow> m_total_feedback m);
          rate = (case metrics result of None \<Rightarrow> 0 | Some m \<Rightarrow> m_disagreement_rate m);
          evidence_count = (case metrics result of None \<Rightarrow> 0 | Some m \<Rightarrow> m_evidence_count m)
      in case first_where (\<lambda>c. cc_project_id c = project_id) (confidence_calibrations db) of
           Some existing \<Rightarrow>
             (result,
              db\<lparr> confidence_calibrations :=
                    update_first (\<lambda>c. cc_project_id c = project_id)
                      (\<lambda>c. c\<lparr> cc_confidence_level := confidence_level result,
                              cc_human_review_recommended := human_review_recommended result,
                              cc_disagreement_flag := disagreement_flag result,
                              cc_calibration_notes := calibration_notes result,
                              cc_total_feedback_count := total_feedback,
                              cc_disagreement_count :=
                                py_int (float_of (rate * of_int total_feedback)),
                              cc_evidence_count := evidence_count \<rparr>)
                      (confidence_calibrations db) \<rparr>)
         | None \<Rightarrow>
             (result,
              db\<lparr> confidence_calibrations :=
                    confidence_calibrations db @
                      [\<lparr> cc_project_id = project_id,
                         cc_confidence_level = confidence_level result,
                         cc_human_review_recommended = human_review_recommended result,
                         cc_disagreement_flag = disagreement_flag result,
                         cc_calibration_notes = calibration_notes result,
                         cc_total_feedback_count = total_feedback,
                         cc_disagreement_count = 0,
                         cc_evidence_count = evidence_count \<rparr>] \<rparr>))"

section \<open>Audit service (audit_service.py)\<close>

text \<open>
  \<open>metadata_json = json.dumps(metadata) if metadata else None\<close>. \<open>metadata\<close> is None
  or a dictionary, given by its items with values of any type \<open>'v\<close>; an empty
  dictionary is falsy. \<open>json_dumps\<close> is the serialiser, None where \<open>json.dumps\<close> raises
  (a value that JSON cannot encode). The outer None of the result is that raise.
\<close>

definition metadata_json_of ::
  "((string \<times> 'v) list \<Rightarrow> string option) \<Rightarrow> (string \<times> 'v) list option
     \<Rightarrow> string option option" where
  "metadata_json_of json_dumps metadata =
     (case metadata of
        None \<Rightarrow> Some None
      | Some d \<Rightarrow>
          if d = [] then Some None
          else (case json_dumps d of None \<Rightarrow> None | Some text \<Rightarrow> Some (Some text)))"

text \<open>
  \<open>log_action\<close>. A raise of \<open>json.dumps\<close> is caught by the outer \<open>except\<close>, which
  returns False with nothing written. The insert and commit of the model always
  succeed, so a storage failure, the other way into that branch, has no counterpart.
\<close>

definition log_action ::
  "Settings \<Rightarrow> ((string \<times> 'v) list \<Rightarrow> string option) \<Rightarrow> int \<Rightarrow> Database \<Rightarrow> string
     \<Rightarrow> string \<Rightarrow> int option \<Rightarrow> string option \<Rightarrow> (string \<times> 'v) list option
     \<Rightarrow> bool \<times> Database" where
  "log_action settings json_dumps now db action_type entity_type entity_id user_id metadata =
     (if \<not> audit_logs_enabled settings then (True, db)
      else case ActionType_of_string action_type of
             None \<Rightarrow> (False, db)
           | Some a_type \<Rightarrow>
               (case metadata_json_of json_dumps metadata of
                  None \<Rightarrow> (False, db)
                | Some metadata_json \<Rightarrow>
                    (let log_entry =
                           \<lparr> al_id = next_id (map al_id (audit_logs db)),
                             al_action_type = a_type,
                             al_entity_type = entity_type,
                             al_entity_id = entity_id,
                             al_user_id =
                               (case user_id of
                                  None \<Rightarrow> ''system''
                                | Some u \<Rightarrow> if u = [] then ''system'' else u),
                             al_created_at = now,
                             al_metadata_json = metadata_json,
                             al_compliance_mode_active = compliance_mode settings \<rparr>
                     in (True, db\<lparr> audit_logs := audit_logs db @ [log_entry] \<rparr>))))"

definition get_project_audit_trail :: "Database \<Rightarrow> int \<Rightarrow> nat \<Rightarrow> AuditLog list" where
  "get_project_audit_trail db project_id limit =
     take limit
       (newest_first al_created_at
          (filter (\<lambda>l. al_entity_type l = ''Project'' \<and> al_entity_id l = Some project_id)
             (audit_logs db)))"

definition get_recent_system_logs :: "Database \<Rightarrow> nat \<Rightarrow> AuditLog list" where
  "get_recent_system_logs db limit = take limit (newest_first al_created_at (audit_logs db))"

section \<open>Compliance service (compliance_service.py)\<close>

datatype error = HTTPException nat string | AttributeError

record Restriction =
  allowed_in_compliance :: bool
  reason :: string

definition RESTRICTED_FEATURES :: "string \<rightharpoonup> Restriction" where
  "RESTRICTED_FEATURES =
     [''PATENT_CLAIM_GENERATION'' \<mapsto>
        \<lparr> allowed_in_compliance = False,
          reason = ''Patent claim generation is disabled in Compliance Mode to prevent unauthorized legal practice.'' \<rparr>,
      ''DRAFT_OPTIMIZATION_CREATIVE'' \<mapsto>
        \<lparr> allowed_in_compliance = False,
          reason = ''Creative rewriting is disabled. Only clarity/grammar fixes allowed.'' \<rparr>,
      ''HIGH_RISK_NOVELTY_CHECK'' \<mapsto>
        \<lparr> allowed_in_compliance = True,
          reason = ''Novelty checking is allowed but creates permanent audit records.'' \<rparr>]"

definition is_compliance_mode_active :: "Settings \<Rightarrow> bool" where
  "is_compliance_mode_active settings = compliance_mode settings"

text \<open>\<open>validate_feature_access\<close>: \<open>Inr ()\<close> is the plain return, \<open>Inl\<close> the raise.\<close>

definition validate_feature_access :: "Settings \<Rightarrow> string \<Rightarrow> error + unit" where
  "validate_feature_access settings feature_name =
     (if \<not> is_compliance_mode_active settings then Inr ()
      else case RESTRICTED_FEATURES feature_name of
             None \<Rightarrow> Inr ()
           | Some rule \<Rightarrow>
               if \<not> allowed_in_compliance rule
               then Inl (HTTPException 403 (''Compliance Restriction: '' @ reason rule))
               else Inr ())"

section \<open>Similarity and novelty risk (main.py)\<close>

text \<open>
  Modelled from the spec: \<open>similarity_engine.classify_novelty_risk\<close>, whose module is
  not among the sources. The spec (4.2) gives it: the research pair of thresholds for
  research evidence and the patent pair for patent evidence, compared with \<open>\<ge>\<close> at the
  red and at the yellow boundary; the thresholds are those of config.py, and the
  docstring of \<open>get_novelty_risk\<close> states the same bands.
\<close>

definition classify_novelty_risk :: "Settings \<Rightarrow> rat \<Rightarrow> EvidenceKind \<Rightarrow> NoveltyRiskLevel" where
  "classify_novelty_risk settings max_score evidence_type =
     (case evidence_type of
        Paper \<Rightarrow>
          if max_score \<ge> research_red_threshold settings then RED
          else if max_score \<ge> research_yellow_threshold settings then YELLOW
          else GREEN
      | Patent \<Rightarrow>
          if max_score \<ge> patent_red_threshold settings then RED
          else if max_score \<ge> patent_yellow_threshold settings then YELLOW
          else GREEN)"

record SimilarityMatch =
  tm_evidence_id :: int
  tm_evidence_type :: EvidenceKind
  tm_similarity_score :: rat

text \<open>The response of \<open>get_novelty_risk\<close>, without its free-text \<open>notes\<close>.\<close>

record NoveltyRiskResponse =
  nr_project_id :: int
  nr_novelty_risk :: NoveltyRiskLevel
  nr_max_similarity_score :: "rat option"
  nr_top_match :: "SimilarityMatch option"
  nr_research_risk :: NoveltyRiskLevel
  nr_research_max_score :: "rat option"
  nr_research_matches :: int
  nr_patent_risk :: NoveltyRiskLevel
  nr_patent_max_score :: "rat option"
  nr_patent_matches :: int
  nr_total_evidence_compared :: int

text \<open>\<open>max(xs)\<close> of a list, None standing for the empty list the source guards.\<close>

definition max_of :: "rat list \<Rightarrow> rat option" where
  "max_of xs = (case xs of [] \<Rightarrow> None | x # rest \<Rightarrow> Some (fold max rest x))"

text \<open>\<open>max(xs, key=k)\<close>: the first element whose key is the largest.\<close>

definition max_by :: "('a \<Rightarrow> int) \<Rightarrow> 'a \<Rightarrow> 'a list \<Rightarrow> 'a" where
  "max_by k x rest = fold (\<lambda>y best. if k best < k y then y else best) rest x"

text \<open>
  \<open>get_novelty_risk\<close>. An unknown project raises 404. With RED overall risk and no
  evidence row for the top score, building the note reads \<open>top_evidence.title\<close> of
  None: the AttributeError branch, which commits nothing.
\<close>

definition get_novelty_risk ::
  "Settings \<Rightarrow> Database \<Rightarrow> int \<Rightarrow> error + (NoveltyRiskResponse \<times> Database)" where
  "get_novelty_risk settings db project_id =
     (case first_where (\<lambda>p. p_id p = project_id) (projects db) of
        None \<Rightarrow>
          Inl (HTTPException 404
                 (''Project with id '' @ str_int project_id @ '' not found''))
      | Some db_project \<Rightarrow>
          (case filter (\<lambda>s. ss_project_id s = project_id) (similarity_scores db) of
             [] \<Rightarrow>
               Inr (\<lparr> nr_project_id = project_id, nr_novelty_risk = UNKNOWN,
                      nr_max_similarity_score = None, nr_top_match = None,
                      nr_research_risk = UNKNOWN, nr_research_max_score = None,
                      nr_research_matches = 0,
                      nr_patent_risk = UNKNOWN, nr_patent_max_score = None,
                      nr_patent_matches = 0, nr_total_evidence_compared = 0 \<rparr>,
                    db\<lparr> analysis_states :=
                          update_first (\<lambda>a. as_project_id a = project_id)
                            (\<lambda>a. a\<lparr> as_novelty_risk := UNKNOWN \<rparr>) (analysis_states db) \<rparr>)
           | s0 # rest \<Rightarrow>
               (let scores = s0 # rest;
                    research_scores = filter (\<lambda>s. ss_evidence_type s = Paper) scores;
                    patent_scores = filter (\<lambda>s. ss_evidence_type s = Patent) scores;
                    research_max = max_of (map score_float research_scores);
                    patent_max = max_of (map score_float patent_scores);
                    research_risk =
                      (case research_max of
                         Some m \<Rightarrow> classify_novelty_risk settings m Paper
                       | None \<Rightarrow> UNKNOWN);
                    patent_risk =
                      (case patent_max of
                         Some m \<Rightarrow> classify_novelty_risk settings m Patent
                       | None \<Rightarrow> UNKNOWN);
                    max_score = fold max (map score_float rest) (score_float s0);
                    top_score = max_by ss_score s0 rest;
                    top_evidence =
                      first_where (\<lambda>e. ce_id e = ss_evidence_id top_score)
                        (candidate_evidence db);
                    overall_risk =
                      classify_novelty_risk settings max_score (ss_evidence_type top_score);
                    top_match =
                      (case top_evidence of
                         None \<Rightarrow> None
                       | Some e \<Rightarrow>
                           Some \<lparr> tm_evidence_id = ce_id e,
                                  tm_evidence_type = ce_source_type e,
                                  tm_similarity_score = score_float top_score \<rparr>)
                in if overall_risk = RED \<and> top_evidence = None then Inl AttributeError
                   else
                     Inr (\<lparr> nr_project_id = project_id, nr_novelty_risk = overall_risk,
                            nr_max_similarity_score = Some max_score, nr_top_match = top_match,
                            nr_research_risk = research_risk,
                            nr_research_max_score = research_max,
                            nr_research_matches = int (length research_scores),
                            nr_patent_risk = patent_risk,
                            nr_patent_max_score = patent_max,
                            nr_patent_matches = int (length patent_scores),
                            nr_total_evidence_compared = int (length scores) \<rparr>,
                          db\<lparr> analysis_states :=
                                update_first (\<lambda>a. as_project_id a = project_id)
                                  (\<lambda>a. a\<lparr> as_novelty_risk := overall_risk,
                                          as_max_similarity_score :=
                                            Some (py_int (float_of
                                                    (float_of max_score * 10000))),
                                          as_top_evidence_id := map_option ce_id top_evidence \<rparr>)
                                  (analysis_states db) \<rparr>))))"

text \<open>
  The severity order of the spec, RED > YELLOW > GREEN > UNKNOWN, and the more severe
  of two labels.
\<close>

fun severity :: "NoveltyRiskLevel \<Rightarrow> nat" where
  "severity RED = 3"
| "severity YELLOW = 2"
| "severity GREEN = 1"
| "severity UNKNOWN = 0"

definition highest_severity :: "NoveltyRiskLevel \<Rightarrow> NoveltyRiskLevel \<Rightarrow> NoveltyRiskLevel" where
  "highest_severity a b = (if severity a \<ge> severity b then a else b)"

record SimilarityComputationResponse =
  sc_success :: bool
  sc_project_id :: int
  sc_scores_computed :: int
  sc_max_score :: "rat option"
  sc_error :: "string option"

text \<open>
  The loop of \<open>compute_similarity\<close> over the project's evidence; the state is the
  score table, the number of scores computed and the running maximum.
  \<open>cosine_similarity\<close> is the similarity engine applied to two stored embeddings; its
  value is the float it returns.
\<close>

fun similarity_loop ::
  "(string \<Rightarrow> string \<Rightarrow> rat) \<Rightarrow> int \<Rightarrow> EvidenceEmbedding list \<Rightarrow> int \<Rightarrow> string
     \<Rightarrow> CandidateEvidence list \<Rightarrow> SimilarityScore list \<times> int \<times> rat
     \<Rightarrow> SimilarityScore list \<times> int \<times> rat" where
  "similarity_loop cosine_similarity now embs project_id idea_vector [] acc = acc"
| "similarity_loop cosine_similarity now embs project_id idea_vector (ev # evidence)
       (scores, scores_computed, max_score) =
     (case first_where (\<lambda>e. ee_evidence_id e = ce_id ev) embs of
        None \<Rightarrow>
          similarity_loop cosine_similarity now embs project_id idea_vector evidence
            (scores, scores_computed, max_score)
      | Some ev_emb \<Rightarrow>
          (let score = cosine_similarity idea_vector (ee_embedding ev_emb);
               score_int = py_int (float_of (score * 10000));
               this = (\<lambda>s. ss_project_id s = project_id \<and> ss_evidence_id s = ce_id ev);
               scores' =
                 (case first_where this scores of
                    Some existing_score \<Rightarrow>
                      update_first this
                        (\<lambda>s. s\<lparr> ss_score := score_int, ss_computed_at := now \<rparr>) scores
                  | None \<Rightarrow>
                      scores @
                        [\<lparr> ss_project_id = project_id, ss_evidence_id = ce_id ev,
                           ss_score = score_int, ss_evidence_type = ce_source_type ev,
                           ss_computed_at = now \<rparr>])
           in similarity_loop cosine_similarity now embs project_id idea_vector evidence
                (scores', scores_computed + 1, max max_score score)))"

definition compute_similarity ::
  "(string \<Rightarrow> string \<Rightarrow> rat) \<Rightarrow> int \<Rightarrow> Database \<Rightarrow> int
     \<Rightarrow> error + (SimilarityComputationResponse \<times> Database)" where
  "compute_similarity cosine_similarity now db project_id =
     (case first_where (\<lambda>p. p_id p = project_id) (projects db) of
        None \<Rightarrow>
          Inl (HTTPException 404
                 (''Project with id '' @ str_int project_id @ '' not found''))
      | Some db_project \<Rightarrow>
          (case first_where (\<lambda>e. ie_project_id e = project_id) (idea_embeddings db) of
             None \<Rightarrow>
               Inr (\<lparr> sc_success = False, sc_project_id = project_id,
                      sc_scores_computed = 0, sc_max_score = None,
                      sc_error = Some ''Idea embedding not found. Generate embeddings first.'' \<rparr>,
                    db)
           | Some idea_emb \<Rightarrow>
               (let evidence =
                      filter (\<lambda>e. ce_project_id e = project_id) (candidate_evidence db);
                    (scores, scores_computed, max_score) =
                      similarity_loop cosine_similarity now (evidence_embeddings db)
                        project_id (ie_embedding idea_emb) evidence
                        (similarity_scores db, 0, 0)
                in Inr (\<lparr> sc_success = True, sc_project_id = project_id,
                          sc_scores_computed = scores_computed,
                          sc_max_score = (if scores_computed > 0 then Some max_score else None),
                          sc_error = None \<rparr>,
                        db\<lparr> similarity_scores := scores,
                            analysis_states :=
                              update_first (\<lambda>a. as_project_id a = project_id)
                                (\<lambda>a. a\<lparr> as_similarity_computed := True,
                                        as_max_similarity_score :=
                                          Some (py_int (float_of (max_score * 10000))) \<rparr>)
                                (analysis_states db) \<rparr>))))"

section \<open>Sequences of operations\<close>

text \<open>
  The operations the claims name, each with its arguments; \<open>step\<close> runs one on the
  store at the clock reading \<open>now\<close>, and an operation that raises leaves the store as
  it was (the session is closed without a commit). \<open>Env\<close> holds the library functions
  the services call; \<open>'v\<close> is the type of the values in an audit metadata dictionary.
\<close>

record 'v Env =
  sha256_hex :: "string \<Rightarrow> string"
  json_dumps :: "(string \<times> 'v) list \<Rightarrow> string option"
  cosine_similarity :: "string \<Rightarrow> string \<Rightarrow> rat"

datatype 'v Operation =
  SubmitFeedback string string int string "string option" "string option"
    "string option" "string option"
  | ComputeSimilarity int
  | GetNoveltyRisk int
  | GetOrCreateCalibration int
  | ValidateFeatureAccess string
  | LogAction string string "int option" "string option" "(string \<times> 'v) list option"

fun step :: "'v Env \<Rightarrow> Settings \<Rightarrow> int \<Rightarrow> 'v Operation \<Rightarrow> Database \<Rightarrow> Database" where
  "step env settings now
       (SubmitFeedback output_id output_type project_id feedback_type user_id user_role
          comment ip_address) db =
     snd (submit_feedback (sha256_hex env) now db output_id output_type project_id
            feedback_type user_id user_role comment ip_address)"
| "step env settings now (ComputeSimilarity project_id) db =
     (case compute_similarity (cosine_similarity env) now db project_id of
        Inl e \<Rightarrow> db | Inr (r, db') \<Rightarrow> db')"
| "step env settings now (GetNoveltyRisk project_id) db =
     (case get_novelty_risk settings db project_id of
        Inl e \<Rightarrow> db | Inr (r, db') \<Rightarrow> db')"
| "step env settings now (GetOrCreateCalibration project_id) db =
     snd (get_or_create_calibration db project_id)"
| "step env settings now (ValidateFeatureAccess feature_name) db = db"
| "step env settings now (LogAction action_type entity_type entity_id user_id metadata) db =
     snd (log_action settings (json_dumps env) now db action_type entity_type entity_id
            user_id metadata)"

fun run ::
  "'v Env \<Rightarrow> Settings \<Rightarrow> (int \<times> 'v Operation) list \<Rightarrow> Database \<Rightarrow> Database" where
  "run env settings [] db = db"
| "run env settings ((now, op) # ops) db = run env settings ops (step env settings now op db)"

section \<open>The specification's words\<close>

text \<open>
  The ordered decision list of the specification (4.4), as data: the rules in order,
  each a condition with the level it gives, and \<open>first_match\<close>, which returns the
  level of the first rule whose condition holds.
\<close>

fun first_match :: "(bool \<times> 'a) list \<Rightarrow> 'a option" where
  "first_match [] = None"
| "first_match ((c, v) # rs) = (if c then Some v else first_match rs)"

definition spec_decision_list ::
  "NoveltyRiskLevel \<Rightarrow> int \<Rightarrow> rat \<Rightarrow> bool \<Rightarrow> (bool \<times> ConfidenceLevel) list" where
  "spec_decision_list novelty_risk evidence_count disagreement_rate restricted_context =
     [(novelty_risk = RED \<and> evidence_count < 3, LOW),
      (disagreement_rate > 30 / 100, LOW),
      (restricted_context,
         if evidence_count \<ge> 10 \<and> disagreement_rate < 10 / 100 then MEDIUM else LOW),
      (evidence_count \<ge> 10 \<and> disagreement_rate < 10 / 100, MEDIUM),
      (evidence_count \<ge> 3, if disagreement_rate < 20 / 100 then MEDIUM else LOW),
      (True, LOW)]"

section \<open>Example stores and settings\<close>

definition patent_db :: Database where
  "patent_db =
     empty_db\<lparr> projects := [\<lparr> p_id = 1, p_type = PATENT, p_domain = None \<rparr>],
               candidate_evidence :=
                 map (\<lambda>i. \<lparr> ce_id = i, ce_project_id = 1, ce_source_type = Patent \<rparr>) [1..12] \<rparr>"

definition disabled_settings :: Settings where
  "disabled_settings = default_settings\<lparr> audit_logs_enabled := False \<rparr>"

definition compliance_settings :: Settings where
  "compliance_settings = default_settings\<lparr> compliance_mode := True \<rparr>"

text \<open>
  The disagreement rate in the specification's words (4.3): DISAGREE and NOT_HELPFUL
  over DISAGREE, NOT_HELPFUL, AGREE and HELPFUL, and 0 without a record of these kinds.
\<close>

definition spec_disagreement_rate :: "UserFeedback list \<Rightarrow> rat" where
  "spec_disagreement_rate fl =
     (let negative = count_type DISAGREE fl + count_type NOT_HELPFUL fl;
          total = negative + count_type AGREE fl + count_type HELPFUL fl
      in if total = 0 then 0 else of_int negative / of_int total)"

text \<open>One DISAGREE submission for the same output at each clock reading of the list.\<close>

definition disagree_submissions ::
  "string \<Rightarrow> string \<Rightarrow> int \<Rightarrow> int list \<Rightarrow> (int \<times> 'v Operation) list" where
  "disagree_submissions output_id output_type project_id clock =
     map (\<lambda>now. (now, SubmitFeedback output_id output_type project_id ''DISAGREE''
                         None None None None)) clock"

text \<open>
  Two environments over string-valued metadata: one whose serialiser succeeds and one
  whose serialiser raises on every dictionary.
\<close>

definition example_env :: "string Env" where
  "example_env =
     \<lparr> sha256_hex = (\<lambda>s. s), json_dumps = (\<lambda>d. Some ''{}''),
       cosine_similarity = (\<lambda>a b. 0) \<rparr>"

definition failing_env :: "string Env" where
  "failing_env = example_env\<lparr> json_dumps := (\<lambda>d. None) \<rparr>"

text \<open>
  A research project with one paper scored 0.78 and one patent scored 0.76.
\<close>

definition novelty_db :: Database where
  "novelty_db =
     empty_db\<lparr> projects := [\<lparr> p_id = 1, p_type = RESEARCH, p_domain = None \<rparr>],
               candidate_evidence :=
                 [\<lparr> ce_id = 1, ce_project_id = 1, ce_source_type = Paper \<rparr>,
                  \<lparr> ce_id = 2, ce_project_id = 1, ce_source_type = Patent \<rparr>],
               similarity_scores :=
                 [\<lparr> ss_project_id = 1, ss_evidence_id = 1, ss_score = 7800,
                    ss_evidence_type = Paper, ss_computed_at = 0 \<rparr>,
                  \<lparr> ss_project_id = 1, ss_evidence_id = 2, ss_score = 7600,
                    ss_evidence_type = Patent, ss_computed_at = 0 \<rparr>],
               analysis_states :=
                 [\<lparr> as_project_id = 1, as_similarity_computed = True,
                    as_novelty_risk = UNKNOWN, as_max_similarity_score = None,
                    as_top_evidence_id = None \<rparr>] \<rparr>"

text \<open>
  A project of type RESEARCH whose domain column is "MEDICAL" (one of the domains
  venue_database.py names), with five evidence rows.
\<close>

definition medical_db :: Database where
  "medical_db =
     empty_db\<lparr> projects := [\<lparr> p_id = 1, p_type = RESEARCH, p_domain = Some ''MEDICAL'' \<rparr>],
               candidate_evidence :=
                 map (\<lambda>i. \<lparr> ce_id = i, ce_project_id = 1, ce_source_type = Paper \<rparr>) [1..5] \<rparr>"

text \<open>A feedback record of a given kind for output "out" of project 1.\<close>

definition feedback_row :: "int \<Rightarrow> FeedbackType \<Rightarrow> UserFeedback" where
  "feedback_row i t =
     \<lparr> uf_id = i, uf_output_id = ''out'', uf_output_type = CLAIM, uf_project_id = 1,
       uf_user_id = None, uf_user_role = None, uf_feedback_type = t, uf_comment = None,
       uf_created_at = i, uf_ip_hash = None \<rparr>"

definition thirds_db :: Database where
  "thirds_db =
     empty_db\<lparr> user_feedback :=
       [feedback_row 1 DISAGREE, feedback_row 2 AGREE, feedback_row 3 AGREE] \<rparr>"

text \<open>
  Stores of feedback: one DISAGREE with 79 AGREE records for output "out" (the exact
  quotient 1/80 is a rounding tie); only NEEDS_REVISION and NEEDS_EXPERT records; and
  a stored project with one NEEDS_REVISION and one AGREE record.
\<close>

definition tie_db :: Database where
  "tie_db =
     empty_db\<lparr> user_feedback :=
       feedback_row 1 DISAGREE # map (\<lambda>i. feedback_row i AGREE) [2..80] \<rparr>"

definition review_only_db :: Database where
  "review_only_db =
     empty_db\<lparr> user_feedback :=
       [feedback_row 1 NEEDS_REVISION, feedback_row 2 NEEDS_EXPERT] \<rparr>"

definition disputed_db :: Database where
  "disputed_db =
     empty_db\<lparr> projects := [\<lparr> p_id = 1, p_type = RESEARCH, p_domain = None \<rparr>],
               user_feedback := [feedback_row 1 NEEDS_REVISION, feedback_row 2 AGREE] \<rparr>"

text \<open>
  The query of the specification (4.6) in its words: an ordered list, newest first, of
  at most \<open>limit\<close> rows. \<open>newest_rows limit rows result\<close> says that \<open>result\<close> is such
  an answer over the stored \<open>rows\<close>: ordered by descending timestamp, as long as the
  limit and the rows allow, made of stored rows (each as often as stored at most), and
  no row left out is newer than a row returned.
\<close>

definition newest_rows :: "nat \<Rightarrow> AuditLog list \<Rightarrow> AuditLog list \<Rightarrow> bool" where
  "newest_rows limit rows result \<longleftrightarrow>
     sorted_wrt (\<lambda>a b. al_created_at a \<ge> al_created_at b) result
     \<and> length result = min limit (length rows)
     \<and> mset result \<subseteq># mset rows
     \<and> (\<forall>x \<in># mset rows - mset result. \<forall>y \<in> set result.
           al_created_at x \<le> al_created_at y)"

text \<open>The rows of the audit table that the project trail selects.\<close>

definition project_rows :: "Database \<Rightarrow> int \<Rightarrow> AuditLog list" where
  "project_rows db project_id =
     filter (\<lambda>l. al_entity_type l = ''Project'' \<and> al_entity_id l = Some project_id)
       (audit_logs db)"

text \<open>A store that holds 100 audit rows of project 1, written at the times 1 to 100.\<close>

definition audit_row :: "int \<Rightarrow> AuditLog" where
  "audit_row i =
     \<lparr> al_id = i, al_action_type = PROJECT_CREATED, al_entity_type = ''Project'',
       al_entity_id = Some 1, al_user_id = ''system'', al_created_at = i,
       al_metadata_json = None, al_compliance_mode_active = False \<rparr>"

definition full_audit_db :: Database where
  "full_audit_db = empty_db\<lparr> audit_logs := map audit_row [1..100] \<rparr>"

text \<open>A store with one audit row, and two operations on it.\<close>

definition one_audit_db :: Database where
  "one_audit_db = empty_db\<lparr> audit_logs := [audit_row 1] \<rparr>"

definition two_operations :: "(int \<times> string Operation) list" where
  "two_operations =
     [(2, LogAction ''PROJECT_CREATED'' ''Project'' (Some 1) None None),
      (3, ValidateFeatureAccess ''PATENT_CLAIM_GENERATION'')]"

section \<open>Shared facts\<close>

lemmas thresholds =
  EVIDENCE_COUNT_LOW_THRESHOLD_def EVIDENCE_COUNT_MEDIUM_THRESHOLD_def
  DISAGREEMENT_HIGH_THRESHOLD_def SIMILARITY_CLARITY_THRESHOLD_def

lemma apply_rules_restricted:
  "fst (apply_rules novelty_risk evidence_count disagreement_rate high_disagreement True)
     \<in> {LOW, MEDIUM}"
  by (simp add: apply_rules_def)

text \<open>For a stored project, the level returned is the one the rule block computes.\<close>

lemma calculate_confidence_level:
  assumes "first_where (\<lambda>p. p_id p = project_id) (projects db) = Some project"
  shows "confidence_level (calculate_confidence db project_id) =
           fst (apply_rules (novelty_risk_of db project_id) (evidence_count_of db project_id)
                  (calibration_disagreement_rate (project_feedback_list db project_id))
                  (calibration_disagreement_rate (project_feedback_list db project_id)
                     > DISAGREEMENT_HIGH_THRESHOLD)
                  (is_restricted_context project))"
  using assms by (simp add: calculate_confidence_def Let_def split: prod.splits)

section \<open>Confidence calibration\<close>

text \<open>
  C1. For a project in a restricted context the calibration never returns HIGH: the
  level of \<open>calculate_confidence\<close> is LOW or MEDIUM, and so is the outcome of the rule
  block with the restricted flag set, for every novelty risk, evidence count,
  disagreement rate and disagreement flag.
\<close>

theorem never_high_in_restricted_context:
  assumes "first_where (\<lambda>p. p_id p = project_id) (projects db) = Some project"
      and "is_restricted_context project"
  shows "confidence_level (calculate_confidence db project_id) \<in> {LOW, MEDIUM}
         \<and> fst (apply_rules novelty_risk evidence_count disagreement_rate high_disagreement True)
             \<in> {LOW, MEDIUM}"
  using assms apply_rules_restricted by (simp add: calculate_confidence_level)

theorem never_high_in_restricted_context_witness:
  "first_where (\<lambda>p. p_id p = 1) (projects patent_db)
     = Some \<lparr> p_id = 1, p_type = PATENT, p_domain = None \<rparr>
   \<and> is_restricted_context \<lparr> p_id = 1, p_type = PATENT, p_domain = None \<rparr>
   \<and> confidence_level (calculate_confidence patent_db 1) = MEDIUM"
proof -
  have h1: "first_where (\<lambda>p. p_id p = 1) (projects patent_db)
              = Some \<lparr> p_id = 1, p_type = PATENT, p_domain = None \<rparr>"
    by (simp add: patent_db_def empty_db_def first_where_def)
  have h2: "is_restricted_context \<lparr> p_id = 1, p_type = PATENT, p_domain = None \<rparr>"
    by (simp add: is_restricted_context_def)
  have "confidence_level (calculate_confidence patent_db 1) = MEDIUM"
    by code_simp
  with h1 h2 never_high_in_restricted_context [OF h1 h2] show ?thesis by simp
qed

text \<open>
  C6. The calibrator is the ordered decision list of the specification: for a stored
  project, the first rule of \<open>spec_decision_list\<close> that matches the project's novelty
  risk, evidence count, disagreement rate and restricted flag gives the level that
  \<open>calculate_confidence\<close> returns.
\<close>

theorem calibrator_is_ordered_decision_list:
  assumes "first_where (\<lambda>p. p_id p = project_id) (projects db) = Some project"
  shows "first_match
           (spec_decision_list (novelty_risk_of db project_id) (evidence_count_of db project_id)
              (calibration_disagreement_rate (project_feedback_list db project_id))
              (is_restricted_context project))
         = Some (confidence_level (calculate_confidence db project_id))"
  using assms
  by (simp add: calculate_confidence_level apply_rules_def spec_decision_list_def thresholds)

theorem calibrator_is_ordered_decision_list_witness:
  "first_where (\<lambda>p. p_id p = 1) (projects patent_db)
     = Some \<lparr> p_id = 1, p_type = PATENT, p_domain = None \<rparr>
   \<and> first_match
        (spec_decision_list (novelty_risk_of patent_db 1) (evidence_count_of patent_db 1)
           (calibration_disagreement_rate (project_feedback_list patent_db 1))
           (is_restricted_context \<lparr> p_id = 1, p_type = PATENT, p_domain = None \<rparr>))
      = Some MEDIUM"
proof -
  have h1: "first_where (\<lambda>p. p_id p = 1) (projects patent_db)
              = Some \<lparr> p_id = 1, p_type = PATENT, p_domain = None \<rparr>"
    by (simp add: patent_db_def empty_db_def first_where_def)
  have "confidence_level (calculate_confidence patent_db 1) = MEDIUM"
    by code_simp
  with h1 calibrator_is_ordered_decision_list [OF h1] show ?thesis by simp
qed

section \<open>Audit service\<close>

text \<open>
  C10. With \<open>audit_logs_enabled\<close> false, \<open>log_action\<close> returns True on every input,
  also on an action type outside the enumeration, and leaves the store as it was: no
  audit row is written.
\<close>

theorem log_action_disabled:
  assumes "\<not> audit_logs_enabled settings"
  shows "log_action settings dumps now db action_type entity_type entity_id user_id metadata
           = (True, db)"
  using assms by (simp add: log_action_def)

theorem log_action_disabled_witness:
  "\<not> audit_logs_enabled disabled_settings
   \<and> log_action disabled_settings (json_dumps example_env) 7 empty_db ''NOT_AN_ACTION''
        ''Project'' (Some 1) None None = (True, empty_db)
   \<and> ActionType_of_string ''NOT_AN_ACTION'' = None
   \<and> audit_logs empty_db = []"
proof -
  have h: "\<not> audit_logs_enabled disabled_settings"
    by (simp add: disabled_settings_def default_settings_def)
  from log_action_disabled [OF h, of "json_dumps example_env" 7 empty_db "''NOT_AN_ACTION''"
      "''Project''" "Some 1" None None]
  show ?thesis using h by (simp add: ActionType_of_string_def empty_db_def)
qed

section \<open>Compliance gate\<close>

text \<open>
  C8. \<open>validate_feature_access\<close> raises exactly when compliance mode is active and the
  feature is listed in \<open>RESTRICTED_FEATURES\<close> with \<open>allowed_in_compliance\<close> false. With
  the mode inactive it returns for every feature name; a name absent from the table
  never raises; and every exception raised is the 403 whose detail carries the table's
  reason for that feature.
\<close>

theorem validate_feature_access_spec:
  "((\<exists>e. validate_feature_access settings feature_name = Inl e) \<longleftrightarrow>
      (is_compliance_mode_active settings \<and>
       (\<exists>rule. RESTRICTED_FEATURES feature_name = Some rule \<and> \<not> allowed_in_compliance rule)))
   \<and> (\<not> is_compliance_mode_active settings \<longrightarrow>
        validate_feature_access settings feature_name = Inr ())
   \<and> (RESTRICTED_FEATURES feature_name = None \<longrightarrow>
        validate_feature_access settings feature_name = Inr ())
   \<and> (\<forall>e. validate_feature_access settings feature_name = Inl e \<longrightarrow>
        (\<exists>rule. RESTRICTED_FEATURES feature_name = Some rule \<and>
           e = HTTPException 403 (''Compliance Restriction: '' @ reason rule)))"
  by (auto simp: validate_feature_access_def split: option.splits)

theorem validate_feature_access_spec_witness:
  "is_compliance_mode_active compliance_settings
   \<and> validate_feature_access compliance_settings ''PATENT_CLAIM_GENERATION''
       = Inl (HTTPException 403 (''Compliance Restriction: '' @
           ''Patent claim generation is disabled in Compliance Mode to prevent unauthorized legal practice.''))
   \<and> \<not> is_compliance_mode_active default_settings
   \<and> validate_feature_access default_settings ''PATENT_CLAIM_GENERATION'' = Inr ()
   \<and> RESTRICTED_FEATURES ''EXPORT_REPORT'' = None
   \<and> validate_feature_access compliance_settings ''EXPORT_REPORT'' = Inr ()"
proof -
  have a: "is_compliance_mode_active compliance_settings"
    by (simp add: is_compliance_mode_active_def compliance_settings_def default_settings_def)
  have b: "\<not> is_compliance_mode_active default_settings"
    by (simp add: is_compliance_mode_active_def default_settings_def)
  have c: "RESTRICTED_FEATURES ''EXPORT_REPORT'' = None"
    by (simp add: RESTRICTED_FEATURES_def)
  have d: "RESTRICTED_FEATURES ''PATENT_CLAIM_GENERATION'' =
             Some \<lparr> allowed_in_compliance = False,
                    reason = ''Patent claim generation is disabled in Compliance Mode to prevent unauthorized legal practice.'' \<rparr>"
    by (simp add: RESTRICTED_FEATURES_def)
  from a d validate_feature_access_spec [of compliance_settings "''PATENT_CLAIM_GENERATION''"]
  obtain e where e: "validate_feature_access compliance_settings ''PATENT_CLAIM_GENERATION'' = Inl e"
    by auto
  with d validate_feature_access_spec [of compliance_settings "''PATENT_CLAIM_GENERATION''"]
  have "e = HTTPException 403 (''Compliance Restriction: '' @
           ''Patent claim generation is disabled in Compliance Mode to prevent unauthorized legal practice.'')"
    by auto
  with e a b c
    validate_feature_access_spec [of default_settings "''PATENT_CLAIM_GENERATION''"]
    validate_feature_access_spec [of compliance_settings "''EXPORT_REPORT''"]
  show ?thesis by simp
qed

section \<open>Feedback service\<close>

lemma count_type_newest_first [simp]:
  "count_type t (newest_first created xs) = count_type t xs"
  by (simp add: count_type_def newest_first_def filter_sort rev_filter [symmetric])

lemma length_newest_first [simp]: "length (newest_first created xs) = length xs"
  by (simp add: newest_first_def)

lemma set_newest_first [simp]: "set (newest_first created xs) = set xs"
  by (simp add: newest_first_def)

lemma count_type_append [simp]:
  "count_type t (xs @ ys) = count_type t xs + count_type t ys"
  by (simp add: count_type_def)

lemma submit_feedback_invalid:
  assumes "FeedbackType_of_string feedback_type = None \<or> OutputType_of_string output_type = None"
  shows "\<not> fs_success (fst (submit_feedback h now db output_id output_type project_id
             feedback_type user_id user_role comment ip_address))
         \<and> snd (submit_feedback h now db output_id output_type project_id
             feedback_type user_id user_role comment ip_address) = db"
  using assms by (auto simp: submit_feedback_def split: option.splits)

lemma submit_feedback_valid:
  assumes "FeedbackType_of_string feedback_type = Some fb_type"
      and "OutputType_of_string output_type = Some out_type"
  shows "\<exists>r. uf_output_id r = output_id \<and> uf_output_type r = out_type
             \<and> uf_project_id r = project_id \<and> uf_feedback_type r = fb_type
             \<and> uf_comment r = comment \<and> uf_created_at r = now
             \<and> fs_success (fst (submit_feedback h now db output_id output_type project_id
                   feedback_type user_id user_role comment ip_address))
             \<and> snd (submit_feedback h now db output_id output_type project_id
                   feedback_type user_id user_role comment ip_address)
                 = db\<lparr> user_feedback := user_feedback db @ [r] \<rparr>"
proof -
  let ?r = "\<lparr> uf_id = next_id (map uf_id (user_feedback db)),
              uf_output_id = output_id, uf_output_type = out_type,
              uf_project_id = project_id, uf_user_id = user_id,
              uf_user_role = user_role, uf_feedback_type = fb_type,
              uf_comment = comment, uf_created_at = now,
              uf_ip_hash = hash_ip h ip_address \<rparr>"
  show ?thesis
    by (rule exI [of _ ?r]) (simp add: submit_feedback_def Let_def assms)
qed

lemma FeedbackType_DISAGREE [simp]: "FeedbackType_of_string ''DISAGREE'' = Some DISAGREE"
  by (simp add: FeedbackType_of_string_def)

lemma run_disagree_submissions:
  assumes "OutputType_of_string output_type = Some out_type"
  shows "\<exists>rs. length rs = length clock
            \<and> (\<forall>r \<in> set rs. uf_output_id r = output_id \<and> uf_feedback_type r = DISAGREE)
            \<and> run env settings (disagree_submissions output_id output_type project_id clock) db
                = db\<lparr> user_feedback := user_feedback db @ rs \<rparr>"
proof (induction clock arbitrary: db)
  case Nil
  show ?case by (simp add: disagree_submissions_def)
next
  case (Cons now clock)
  from submit_feedback_valid [OF FeedbackType_DISAGREE assms]
  obtain r where r: "uf_output_id r = output_id" "uf_feedback_type r = DISAGREE"
    "snd (submit_feedback (sha256_hex env) now db output_id output_type project_id
            ''DISAGREE'' None None None None) = db\<lparr> user_feedback := user_feedback db @ [r] \<rparr>"
    by blast
  from Cons.IH [of "db\<lparr> user_feedback := user_feedback db @ [r] \<rparr>"]
  obtain rs where rs: "length rs = length clock"
    "\<forall>r \<in> set rs. uf_output_id r = output_id \<and> uf_feedback_type r = DISAGREE"
    "run env settings (disagree_submissions output_id output_type project_id clock)
       (db\<lparr> user_feedback := user_feedback db @ [r] \<rparr>)
     = db\<lparr> user_feedback := user_feedback db @ [r] @ rs \<rparr>"
    by auto
  show ?case
  proof (intro exI conjI)
    show "length (r # rs) = length (now # clock)" using rs(1) by simp
    show "\<forall>x \<in> set (r # rs). uf_output_id x = output_id \<and> uf_feedback_type x = DISAGREE"
      using r rs(2) by simp
    show "run env settings (disagree_submissions output_id output_type project_id (now # clock)) db
            = db\<lparr> user_feedback := user_feedback db @ r # rs \<rparr>"
      using r(3) rs(3) by (simp add: disagree_submissions_def)
  qed
qed

lemma count_type_all:
  assumes "\<forall>r \<in> set rs. uf_feedback_type r = t"
  shows "count_type t rs = int (length rs)"
  using assms by (induction rs) (auto simp: count_type_def)

lemma summary_counts:
  "sm_disagree_count (get_feedback_for_output db output_id)
     = count_type DISAGREE (filter (\<lambda>f. uf_output_id f = output_id) (user_feedback db))"
  "sm_total_count (get_feedback_for_output db output_id)
     = int (length (filter (\<lambda>f. uf_output_id f = output_id) (user_feedback db)))"
  by (simp_all add: get_feedback_for_output_def Let_def)

text \<open>
  C7. A submission whose feedback kind or output kind is outside its enumeration is
  unsuccessful and leaves the store as it was. A valid submission succeeds and appends
  exactly one record, for that output and of that kind, after the records already
  stored, which stay as they were. After N DISAGREE submissions for one output the
  store holds the earlier records followed by N new ones, and the summary's DISAGREE
  count and total count have both grown by N.
\<close>

theorem submit_feedback_validates_and_preserves:
  "(FeedbackType_of_string feedback_type = None \<or> OutputType_of_string output_type = None \<longrightarrow>
      \<not> fs_success (fst (submit_feedback h now db output_id output_type project_id
             feedback_type user_id user_role comment ip_address))
      \<and> snd (submit_feedback h now db output_id output_type project_id
             feedback_type user_id user_role comment ip_address) = db)
   \<and> (\<forall>fb_type out_type.
        FeedbackType_of_string feedback_type = Some fb_type
        \<and> OutputType_of_string output_type = Some out_type \<longrightarrow>
        (\<exists>r. uf_output_id r = output_id \<and> uf_feedback_type r = fb_type
           \<and> fs_success (fst (submit_feedback h now db output_id output_type project_id
                 feedback_type user_id user_role comment ip_address))
           \<and> snd (submit_feedback h now db output_id output_type project_id
                 feedback_type user_id user_role comment ip_address)
               = db\<lparr> user_feedback := user_feedback db @ [r] \<rparr>))
   \<and> (\<forall>out_type. OutputType_of_string output_type = Some out_type \<longrightarrow>
        (let db' = run env settings
                     (disagree_submissions output_id output_type project_id clock) db
         in prefix (user_feedback db) (user_feedback db')
            \<and> length (user_feedback db') = length (user_feedback db) + length clock
            \<and> sm_disagree_count (get_feedback_for_output db' output_id)
                = sm_disagree_count (get_feedback_for_output db output_id) + int (length clock)
            \<and> sm_total_count (get_feedback_for_output db' output_id)
                = sm_total_count (get_feedback_for_output db output_id) + int (length clock)))"
proof (intro conjI allI impI)
  assume "FeedbackType_of_string feedback_type = None \<or> OutputType_of_string output_type = None"
  from submit_feedback_invalid [OF this]
  show "\<not> fs_success (fst (submit_feedback h now db output_id output_type project_id
             feedback_type user_id user_role comment ip_address))"
    and "snd (submit_feedback h now db output_id output_type project_id
             feedback_type user_id user_role comment ip_address) = db"
    by blast+
next
  fix fb_type out_type
  assume "FeedbackType_of_string feedback_type = Some fb_type
        \<and> OutputType_of_string output_type = Some out_type"
  then have a: "FeedbackType_of_string feedback_type = Some fb_type"
    and b: "OutputType_of_string output_type = Some out_type" by simp_all
  from submit_feedback_valid [OF a b]
  show "\<exists>r. uf_output_id r = output_id \<and> uf_feedback_type r = fb_type
           \<and> fs_success (fst (submit_feedback h now db output_id output_type project_id
                 feedback_type user_id user_role comment ip_address))
           \<and> snd (submit_feedback h now db output_id output_type project_id
                 feedback_type user_id user_role comment ip_address)
               = db\<lparr> user_feedback := user_feedback db @ [r] \<rparr>"
    by blast
next
  fix out_type
  assume b: "OutputType_of_string output_type = Some out_type"
  from run_disagree_submissions [OF b]
  obtain rs where rs: "length rs = length clock"
    "\<forall>r \<in> set rs. uf_output_id r = output_id \<and> uf_feedback_type r = DISAGREE"
    "run env settings (disagree_submissions output_id output_type project_id clock) db
       = db\<lparr> user_feedback := user_feedback db @ rs \<rparr>"
    by blast
  have f: "filter (\<lambda>f. uf_output_id f = output_id) rs = rs"
    using rs(2) by (simp add: filter_id_conv)
  have c: "count_type DISAGREE rs = int (length rs)"
    using rs(2) by (simp add: count_type_all)
  show "let db' = run env settings
                     (disagree_submissions output_id output_type project_id clock) db
         in prefix (user_feedback db) (user_feedback db')
            \<and> length (user_feedback db') = length (user_feedback db) + length clock
            \<and> sm_disagree_count (get_feedback_for_output db' output_id)
                = sm_disagree_count (get_feedback_for_output db output_id) + int (length clock)
            \<and> sm_total_count (get_feedback_for_output db' output_id)
                = sm_total_count (get_feedback_for_output db output_id) + int (length clock)"
    using rs(1) f c by (simp add: rs(3) summary_counts Let_def)
qed

theorem submit_feedback_validates_and_preserves_witness:
  "FeedbackType_of_string ''MAYBE'' = None
   \<and> \<not> fs_success (fst (submit_feedback (\<lambda>s. s) 5 empty_db ''out'' ''CLAIM'' 1 ''MAYBE''
            None None None None))
   \<and> snd (submit_feedback (\<lambda>s. s) 5 empty_db ''out'' ''CLAIM'' 1 ''MAYBE''
            None None None None) = empty_db
   \<and> FeedbackType_of_string ''DISAGREE'' = Some DISAGREE
   \<and> OutputType_of_string ''CLAIM'' = Some CLAIM
   \<and> length (user_feedback (run example_env default_settings
               (disagree_submissions ''out'' ''CLAIM'' 1 [1, 2, 3]) empty_db)) = 3
   \<and> sm_disagree_count (get_feedback_for_output
         (run example_env default_settings
            (disagree_submissions ''out'' ''CLAIM'' 1 [1, 2, 3]) empty_db) ''out'') = 3"
proof -
  have a: "FeedbackType_of_string ''MAYBE'' = None"
    by (simp add: FeedbackType_of_string_def)
  have b: "OutputType_of_string ''CLAIM'' = Some CLAIM"
    by (simp add: OutputType_of_string_def)
  have c: "sm_disagree_count (get_feedback_for_output empty_db ''out'') = 0"
    "user_feedback empty_db = []"
    by (simp_all add: summary_counts empty_db_def count_type_def)
  note t = submit_feedback_validates_and_preserves
    [where feedback_type = "''MAYBE''" and output_type = "''CLAIM''" and h = "\<lambda>s. s"
       and now = 5 and db = empty_db and output_id = "''out''" and project_id = 1
       and user_id = None and user_role = None and comment = None and ip_address = None
       and env = example_env and settings = default_settings and clock = "[1, 2, 3]"]
  from t a b c show ?thesis by (simp add: Let_def)
qed

section \<open>Disagreement rates\<close>

lemma round_half_even_error: "\<bar>of_int (round_half_even (x * 1000)) / 1000 - x\<bar> \<le> 1 / 2000"
proof -
  define n where "n = \<lfloor>x * 1000\<rfloor>"
  have a: "of_int n \<le> x * 1000" and b: "x * 1000 < of_int n + 1"
    unfolding n_def by linarith+
  show ?thesis
    unfolding round_half_even_def Let_def n_def [symmetric]
    using a b by (auto simp: abs_if field_simps)
qed

lemma round3_decimal:
  "\<exists>k::int. round3 q = float_of (of_int k / 1000)
     \<and> \<bar>of_int k / 1000 - float_of q\<bar> \<le> 1 / 2000"
  unfolding round3_def
  using round_half_even_error [of "float_of q"]
  by (intro exI [of _ "round_half_even (float_of q * 1000)"] conjI refl)

lemma round3_zero [simp]: "round3 0 = 0"
  by (simp add: round3_def float_of_def round_half_even_def)

lemma disagreements_eq:
  "disagreements fl =
     count_type DISAGREE fl + count_type NOT_HELPFUL fl + count_type NEEDS_REVISION fl"
  by (induction fl) (auto simp: disagreements_def count_type_def disagree_types_def)

lemma summary_rate:
  "sm_disagreement_rate (get_feedback_for_output db output_id)
     = round3 (spec_disagreement_rate
                 (filter (\<lambda>f. uf_output_id f = output_id) (user_feedback db)))"
  by (simp add: get_feedback_for_output_def calculate_disagreement_rate_def
      spec_disagreement_rate_def Let_def ac_simps)

lemma disagreements_newest_first [simp]:
  "disagreements (newest_first created xs) = disagreements xs"
  by (simp add: disagreements_def newest_first_def filter_sort rev_filter [symmetric])

lemma newest_first_Nil [simp]: "newest_first created xs = [] \<longleftrightarrow> xs = []"
  by (metis length_newest_first length_0_conv)

lemma project_stats_rate:
  "ps_overall_disagreement_rate (get_project_feedback db project_id)
     = round3 (calibration_disagreement_rate (project_feedback_list db project_id))"
  by (simp add: get_project_feedback_def calibration_disagreement_rate_def
      project_feedback_list_def Let_def)

lemma disagreement_flag_eq:
  assumes "first_where (\<lambda>p. p_id p = project_id) (projects db) = Some project"
  shows "disagreement_flag (calculate_confidence db project_id) =
           (calibration_disagreement_rate (project_feedback_list db project_id) > 30 / 100)"
  using assms
  by (simp add: calculate_confidence_def Let_def thresholds split: prod.splits)

text \<open>
  C3, as stated, fails. For a project whose only record is NEEDS_REVISION the rate the
  calibrator computes is 1, where the stated formula gives 0; and for one DISAGREE with
  two AGREE records the summary returns the float 0.333, not 1/3.
\<close>

theorem disagreement_rate_counterexample:
  "calibration_disagreement_rate [feedback_row 1 NEEDS_REVISION] = 1
   \<and> spec_disagreement_rate [feedback_row 1 NEEDS_REVISION] = 0
   \<and> sm_disagreement_rate (get_feedback_for_output thirds_db ''out'')
       = float_of (333 / 1000)
   \<and> float_of (333 / 1000) < 1 / 3
   \<and> spec_disagreement_rate
        (filter (\<lambda>f. uf_output_id f = ''out'') (user_feedback thirds_db)) = 1 / 3"
  by code_simp

text \<open>
  C3, amended. The rate of the per-output summary is the stated quotient, DISAGREE and
  NOT_HELPFUL over the four kinds with NEEDS_REVISION and NEEDS_EXPERT left out and 0
  without a record of the four kinds, as Python's \<open>round(x, 3)\<close> rounds the float
  quotient (to the float of a three-decimal number within 1/2000 of that quotient).
  The rate the calibrator consumes is a
  different one: the records of kind DISAGREE, NOT_HELPFUL or NEEDS_REVISION over all
  the project's records, 0 when the project has no record. The calibrator's
  disagreement flag is that rate exceeding 0.30, and the project statistics report that
  rate rounded in the same way.
\<close>

theorem disagreement_rates_as_computed:
  "sm_disagreement_rate (get_feedback_for_output db output_id)
     = round3 (spec_disagreement_rate
                 (filter (\<lambda>f. uf_output_id f = output_id) (user_feedback db)))
   \<and> (\<exists>k::int. sm_disagreement_rate (get_feedback_for_output db output_id)
                 = float_of (of_int k / 1000)
          \<and> \<bar>of_int k / 1000
               - float_of (spec_disagreement_rate
                   (filter (\<lambda>f. uf_output_id f = output_id) (user_feedback db)))\<bar>
              \<le> 1 / 2000)
   \<and> (sm_disagree_count (get_feedback_for_output db output_id) = 0
        \<and> sm_not_helpful_count (get_feedback_for_output db output_id) = 0
        \<and> sm_agree_count (get_feedback_for_output db output_id) = 0
        \<and> sm_helpful_count (get_feedback_for_output db output_id) = 0
        \<longrightarrow> sm_disagreement_rate (get_feedback_for_output db output_id) = 0)
   \<and> calibration_disagreement_rate fl =
        (if fl = [] then 0
         else of_int (count_type DISAGREE fl + count_type NOT_HELPFUL fl
                        + count_type NEEDS_REVISION fl) / of_int (int (length fl)))
   \<and> ps_overall_disagreement_rate (get_project_feedback db project_id)
       = round3 (calibration_disagreement_rate (project_feedback_list db project_id))
   \<and> (first_where (\<lambda>p. p_id p = project_id) (projects db) = Some project \<longrightarrow>
        disagreement_flag (calculate_confidence db project_id) =
          (calibration_disagreement_rate (project_feedback_list db project_id) > 30 / 100))"
proof (intro conjI impI)
  show "ps_overall_disagreement_rate (get_project_feedback db project_id)
       = round3 (calibration_disagreement_rate (project_feedback_list db project_id))"
    by (rule project_stats_rate)
  show "sm_disagreement_rate (get_feedback_for_output db output_id)
     = round3 (spec_disagreement_rate
                 (filter (\<lambda>f. uf_output_id f = output_id) (user_feedback db)))"
    by (rule summary_rate)
  show "\<exists>k::int. sm_disagreement_rate (get_feedback_for_output db output_id)
                 = float_of (of_int k / 1000)
          \<and> \<bar>of_int k / 1000
               - float_of (spec_disagreement_rate
                   (filter (\<lambda>f. uf_output_id f = output_id) (user_feedback db)))\<bar>
              \<le> 1 / 2000"
    unfolding summary_rate by (rule round3_decimal)
  show "calibration_disagreement_rate fl =
        (if fl = [] then 0
         else of_int (count_type DISAGREE fl + count_type NOT_HELPFUL fl
                        + count_type NEEDS_REVISION fl) / of_int (int (length fl)))"
    by (simp add: calibration_disagreement_rate_def disagreements_eq Let_def)
next
  assume "sm_disagree_count (get_feedback_for_output db output_id) = 0
        \<and> sm_not_helpful_count (get_feedback_for_output db output_id) = 0
        \<and> sm_agree_count (get_feedback_for_output db output_id) = 0
        \<and> sm_helpful_count (get_feedback_for_output db output_id) = 0"
  then show "sm_disagreement_rate (get_feedback_for_output db output_id) = 0"
    by (simp add: get_feedback_for_output_def calculate_disagreement_rate_def Let_def)
next
  assume "first_where (\<lambda>p. p_id p = project_id) (projects db) = Some project"
  then show "disagreement_flag (calculate_confidence db project_id) =
          (calibration_disagreement_rate (project_feedback_list db project_id) > 30 / 100)"
    by (rule disagreement_flag_eq)
qed

text \<open>
  The witness: on the store with one DISAGREE and 79 AGREE records the summary rate is
  the float 0.013, as the source's \<open>round(1/80, 3)\<close>; on the store with only NEEDS_REVISION and
  NEEDS_EXPERT records the four counts are 0 and so is the rate; and the project with
  one NEEDS_REVISION and one AGREE record has the calibrator's rate 1/2, reported as
  0.5, and its disagreement flag set.
\<close>

theorem disagreement_rates_as_computed_witness:
  "sm_disagreement_rate (get_feedback_for_output tie_db ''out'') = float_of (13 / 1000)
   \<and> spec_disagreement_rate
        (filter (\<lambda>f. uf_output_id f = ''out'') (user_feedback tie_db)) = 1 / 80
   \<and> sm_total_count (get_feedback_for_output review_only_db ''out'') = 2
   \<and> sm_disagree_count (get_feedback_for_output review_only_db ''out'') = 0
   \<and> sm_not_helpful_count (get_feedback_for_output review_only_db ''out'') = 0
   \<and> sm_agree_count (get_feedback_for_output review_only_db ''out'') = 0
   \<and> sm_helpful_count (get_feedback_for_output review_only_db ''out'') = 0
   \<and> sm_disagreement_rate (get_feedback_for_output review_only_db ''out'') = 0
   \<and> first_where (\<lambda>p. p_id p = 1) (projects disputed_db)
       = Some \<lparr> p_id = 1, p_type = RESEARCH, p_domain = None \<rparr>
   \<and> calibration_disagreement_rate (project_feedback_list disputed_db 1) = 1 / 2
   \<and> ps_overall_disagreement_rate (get_project_feedback disputed_db 1) = 1 / 2
   \<and> disagreement_flag (calculate_confidence disputed_db 1)"
proof -
  have q: "spec_disagreement_rate
        (filter (\<lambda>f. uf_output_id f = ''out'') (user_feedback tie_db)) = 1 / 80"
    by code_simp
  have r: "round3 (1 / 80) = float_of (13 / 1000)" "round3 (1 / 2) = 1 / 2"
    by code_simp+
  have c: "sm_total_count (get_feedback_for_output review_only_db ''out'') = 2"
    "sm_disagree_count (get_feedback_for_output review_only_db ''out'') = 0
     \<and> sm_not_helpful_count (get_feedback_for_output review_only_db ''out'') = 0
     \<and> sm_agree_count (get_feedback_for_output review_only_db ''out'') = 0
     \<and> sm_helpful_count (get_feedback_for_output review_only_db ''out'') = 0"
    by code_simp+
  have p: "first_where (\<lambda>p. p_id p = 1) (projects disputed_db)
             = Some \<lparr> p_id = 1, p_type = RESEARCH, p_domain = None \<rparr>"
    by (simp add: disputed_db_def empty_db_def first_where_def)
  have k: "project_feedback_list disputed_db 1
             = [feedback_row 1 NEEDS_REVISION, feedback_row 2 AGREE]"
    by (simp add: project_feedback_list_def disputed_db_def empty_db_def feedback_row_def)
  have n: "count_type DISAGREE [feedback_row 1 NEEDS_REVISION, feedback_row 2 AGREE] = 0"
    "count_type NOT_HELPFUL [feedback_row 1 NEEDS_REVISION, feedback_row 2 AGREE] = 0"
    "count_type NEEDS_REVISION [feedback_row 1 NEEDS_REVISION, feedback_row 2 AGREE] = 1"
    by (simp_all add: count_type_def feedback_row_def)
  note t1 = disagreement_rates_as_computed
    [where db = tie_db and output_id = "''out''" and project_id = 1
       and project = "\<lparr> p_id = 1, p_type = RESEARCH, p_domain = None \<rparr>" and fl = "[]"]
  note t2 = disagreement_rates_as_computed
    [where db = review_only_db and output_id = "''out''" and project_id = 1
       and project = "\<lparr> p_id = 1, p_type = RESEARCH, p_domain = None \<rparr>" and fl = "[]"]
  note t3 = disagreement_rates_as_computed
    [where db = disputed_db and output_id = "''out''" and project_id = 1
       and project = "\<lparr> p_id = 1, p_type = RESEARCH, p_domain = None \<rparr>"
       and fl = "[feedback_row 1 NEEDS_REVISION, feedback_row 2 AGREE]"]
  have a: "sm_disagreement_rate (get_feedback_for_output tie_db ''out'')
             = float_of (13 / 1000)"
    using t1 q r by simp
  have b: "sm_disagreement_rate (get_feedback_for_output review_only_db ''out'') = 0"
    using t2 c by blast
  have d: "calibration_disagreement_rate (project_feedback_list disputed_db 1) = 1 / 2"
    using t3 n by (simp add: k)
  have e: "ps_overall_disagreement_rate (get_project_feedback disputed_db 1) = 1 / 2"
    using t3 d r by simp
  have f: "disagreement_flag (calculate_confidence disputed_db 1)"
    using t3 p d by simp
  from a q c b p d e f show ?thesis by simp
qed

section \<open>Audit log: append only\<close>

lemma audit_logs_submit_feedback:
  "audit_logs (snd (submit_feedback h now db output_id output_type project_id feedback_type
      user_id user_role comment ip_address)) = audit_logs db"
  by (simp add: submit_feedback_def Let_def split: option.splits)

lemma audit_logs_compute_similarity:
  assumes "compute_similarity c now db project_id = Inr (r, db')"
  shows "audit_logs db' = audit_logs db"
  using assms
  by (auto simp: compute_similarity_def Let_def split: option.splits prod.splits)

lemma audit_logs_get_novelty_risk:
  assumes "get_novelty_risk settings db project_id = Inr (r, db')"
  shows "audit_logs db' = audit_logs db"
  using assms
  by (auto simp: get_novelty_risk_def Let_def split: option.splits list.splits if_splits)

lemma audit_logs_get_or_create_calibration:
  "audit_logs (snd (get_or_create_calibration db project_id)) = audit_logs db"
  by (simp add: get_or_create_calibration_def Let_def split: option.splits)

lemma audit_logs_log_action:
  "audit_logs (snd (log_action settings dumps now db action_type entity_type entity_id
      user_id metadata)) = audit_logs db
   \<or> (\<exists>row. audit_logs (snd (log_action settings dumps now db action_type entity_type
         entity_id user_id metadata)) = audit_logs db @ [row])"
  by (simp add: log_action_def Let_def split: option.splits)

lemma log_action_appends:
  assumes "audit_logs_enabled settings"
      and "ActionType_of_string action_type = Some a_type"
      and "metadata_json_of dumps metadata = Some metadata_json"
  shows "\<exists>row. al_action_type row = a_type \<and> al_created_at row = now
           \<and> al_metadata_json row = metadata_json
           \<and> al_compliance_mode_active row = compliance_mode settings
           \<and> log_action settings dumps now db action_type entity_type entity_id
               user_id metadata = (True, db\<lparr> audit_logs := audit_logs db @ [row] \<rparr>)"
proof -
  let ?row = "\<lparr> al_id = next_id (map al_id (audit_logs db)), al_action_type = a_type,
                al_entity_type = entity_type, al_entity_id = entity_id,
                al_user_id =
                  (case user_id of
                     None \<Rightarrow> ''system''
                   | Some u \<Rightarrow> if u = [] then ''system'' else u),
                al_created_at = now,
                al_metadata_json = metadata_json,
                al_compliance_mode_active = compliance_mode settings \<rparr>"
  show ?thesis
    by (rule exI [of _ ?row]) (simp add: log_action_def Let_def assms)
qed

lemma log_action_fails:
  assumes "audit_logs_enabled settings"
      and "ActionType_of_string action_type = None \<or> metadata_json_of dumps metadata = None"
  shows "log_action settings dumps now db action_type entity_type entity_id user_id metadata
           = (False, db)"
  using assms by (auto simp: log_action_def split: option.splits)

lemma step_keeps_audit_logs:
  assumes "\<forall>a b c d e. op \<noteq> LogAction a b c d e"
  shows "audit_logs (step env settings now op db) = audit_logs db"
proof (cases op)
  case (SubmitFeedback a b c d e f g h)
  then show ?thesis by (simp add: audit_logs_submit_feedback)
next
  case (ComputeSimilarity project_id)
  then show ?thesis
    by (auto simp: audit_logs_compute_similarity split: sum.splits)
next
  case (GetNoveltyRisk project_id)
  then show ?thesis
    by (auto simp: audit_logs_get_novelty_risk split: sum.splits)
next
  case (GetOrCreateCalibration project_id)
  then show ?thesis by (simp add: audit_logs_get_or_create_calibration)
next
  case (ValidateFeatureAccess feature_name)
  then show ?thesis by simp
next
  case (LogAction a b c d e)
  with assms show ?thesis by blast
qed

lemma step_prefix: "prefix (audit_logs db) (audit_logs (step env settings now op db))"
proof (cases "\<forall>a b c d e. op \<noteq> LogAction a b c d e")
  case True
  then show ?thesis by (simp add: step_keeps_audit_logs)
next
  case False
  then obtain a b c d e where "op = LogAction a b c d e" by blast
  then show ?thesis
    using audit_logs_log_action [of settings "json_dumps env" now db a b c d e]
    by auto
qed

lemma run_prefix: "prefix (audit_logs db) (audit_logs (run env settings ops db))"
proof (induction ops arbitrary: db)
  case Nil
  show ?case by simp
next
  case (Cons x ops)
  obtain now op where x: "x = (now, op)" by (cases x)
  have "prefix (audit_logs db) (audit_logs (step env settings now op db))"
    by (rule step_prefix)
  also have "prefix \<dots> (audit_logs (run env settings ops (step env settings now op db)))"
    by (rule Cons.IH)
  finally show ?case by (simp add: x)
qed

lemma recent_logs_all:
  assumes "length (audit_logs db) \<le> limit"
  shows "set (get_recent_system_logs db limit) = set (audit_logs db)"
  using assms by (simp add: get_recent_system_logs_def newest_first_def)

lemma project_trail_all:
  assumes "length (project_rows db project_id) \<le> limit"
  shows "set (get_project_audit_trail db project_id limit) = set (project_rows db project_id)"
  using assms
  by (simp add: get_project_audit_trail_def project_rows_def newest_first_def)

text \<open>
  The first \<open>limit\<close> rows of the newest-first order are an answer in the sense of
  \<open>newest_rows\<close>: what is cut off lies behind them in a sorted list.
\<close>

lemma newest_rows_take:
  "newest_rows limit rows (take limit (newest_first al_created_at rows))"
proof -
  define ys where "ys = newest_first al_created_at rows"
  define f :: "AuditLog \<Rightarrow> int" where "f = (\<lambda>r. - al_created_at r)"
  have srt: "sorted (map f ys)"
    by (simp add: ys_def f_def newest_first_def)
  have ms: "mset rows = mset (take limit ys) + mset (drop limit ys)"
  proof -
    have "mset rows = mset ys" by (simp add: ys_def newest_first_def)
    also have "\<dots> = mset (take limit ys) + mset (drop limit ys)"
      by (metis append_take_drop_id mset_append)
    finally show ?thesis .
  qed
  have "sorted (map f (take limit ys @ drop limit ys))"
    using srt by simp
  then have parts: "sorted (map f (take limit ys))"
    "\<forall>a \<in> set (take limit ys). \<forall>b \<in> set (drop limit ys). f a \<le> f b"
    by (simp_all only: map_append sorted_append set_map) auto
  have a: "sorted_wrt (\<lambda>a b. al_created_at a \<ge> al_created_at b) (take limit ys)"
    using parts(1) by (simp add: sorted_map f_def)
  have b: "length (take limit ys) = min limit (length rows)"
    by (simp add: ys_def min.commute)
  have c: "mset (take limit ys) \<subseteq># mset rows"
    by (simp add: ms)
  have rest: "mset rows - mset (take limit ys) = mset (drop limit ys)"
    by (simp add: ms)
  have d: "\<forall>x \<in># mset rows - mset (take limit ys). \<forall>y \<in> set (take limit ys).
             al_created_at x \<le> al_created_at y"
    unfolding rest using parts(2) by (auto simp: f_def)
  from a b c d show ?thesis
    unfolding newest_rows_def ys_def by blast
qed

text \<open>
  C5, as stated, fails on the query. A store holds 100 audit rows of project 1, and the
  project's audit trail (limit 100, as the endpoint calls it) returns the first of
  them; after one more audit append the trail no longer returns that row. And a
  compliance check leaves the trail as it was, so the result does not grow with every
  operation.
\<close>

theorem audit_query_counterexample:
  "audit_row 1 \<in> set (get_project_audit_trail full_audit_db 1 100)
   \<and> audit_row 1 \<notin> set (get_project_audit_trail
         (run example_env default_settings
            [(101, LogAction ''PROJECT_CREATED'' ''Project'' (Some 1) None None)]
            full_audit_db) 1 100)
   \<and> get_project_audit_trail
         (run example_env default_settings
            [(101, ValidateFeatureAccess ''PATENT_CLAIM_GENERATION'')] full_audit_db) 1 100
       = get_project_audit_trail full_audit_db 1 100"
proof (intro conjI)
  show "audit_row 1 \<in> set (get_project_audit_trail full_audit_db 1 100)"
    by code_simp
  show "audit_row 1 \<notin> set (get_project_audit_trail
         (run example_env default_settings
            [(101, LogAction ''PROJECT_CREATED'' ''Project'' (Some 1) None None)]
            full_audit_db) 1 100)"
    by code_simp
  show "get_project_audit_trail
         (run example_env default_settings
            [(101, ValidateFeatureAccess ''PATENT_CLAIM_GENERATION'')] full_audit_db) 1 100
       = get_project_audit_trail full_audit_db 1 100"
    by simp
qed

text \<open>
  C5, amended. No sequence of the modelled operations (feedback submission, similarity
  computation, risk classification, calibration, compliance check, audit append)
  changes or removes a stored audit row: the audit table before is a prefix of the
  audit table after. Every operation other than an audit append leaves the table as it
  was. An enabled append with a valid action type whose metadata serialises adds
  exactly one row at the end; an enabled append with an invalid action type, or with
  metadata that \<open>json.dumps\<close> rejects, returns False and writes nothing. Each query
  returns the newest rows it selects, newest first: its result is ordered by
  descending timestamp, holds \<open>limit\<close> rows or all selected rows if they are fewer,
  consists of stored rows, and leaves out no row newer than one it returns. So a query
  returns every earlier row as long as it selects at most \<open>limit\<close> rows.
\<close>

theorem audit_log_append_only:
  "prefix (audit_logs db) (audit_logs (run env settings ops db))
   \<and> ((\<forall>a b c d e. op \<noteq> LogAction a b c d e) \<longrightarrow>
        audit_logs (step env settings now op db) = audit_logs db)
   \<and> (audit_logs_enabled settings \<and> ActionType_of_string action_type = Some a_type
        \<and> metadata_json_of (json_dumps env) metadata = Some metadata_json \<longrightarrow>
        (\<exists>row. al_action_type row = a_type \<and> al_created_at row = now
           \<and> al_metadata_json row = metadata_json
           \<and> audit_logs (step env settings now
                 (LogAction action_type entity_type entity_id user_id metadata) db)
               = audit_logs db @ [row]))
   \<and> (audit_logs_enabled settings
        \<and> (ActionType_of_string action_type = None
             \<or> metadata_json_of (json_dumps env) metadata = None) \<longrightarrow>
        log_action settings (json_dumps env) now db action_type entity_type entity_id
          user_id metadata = (False, db))
   \<and> newest_rows limit (audit_logs db) (get_recent_system_logs db limit)
   \<and> newest_rows limit (project_rows db project_id)
        (get_project_audit_trail db project_id limit)
   \<and> (length (audit_logs (run env settings ops db)) \<le> limit \<longrightarrow>
        set (audit_logs db) \<subseteq> set (get_recent_system_logs (run env settings ops db) limit))
   \<and> (length (project_rows (run env settings ops db) project_id) \<le> limit \<longrightarrow>
        set (project_rows db project_id)
          \<subseteq> set (get_project_audit_trail (run env settings ops db) project_id limit))"
proof (intro conjI impI)
  show "prefix (audit_logs db) (audit_logs (run env settings ops db))"
    by (rule run_prefix)
next
  assume "\<forall>a b c d e. op \<noteq> LogAction a b c d e"
  then show "audit_logs (step env settings now op db) = audit_logs db"
    by (rule step_keeps_audit_logs)
next
  assume "audit_logs_enabled settings \<and> ActionType_of_string action_type = Some a_type
        \<and> metadata_json_of (json_dumps env) metadata = Some metadata_json"
  then have "audit_logs_enabled settings" "ActionType_of_string action_type = Some a_type"
    "metadata_json_of (json_dumps env) metadata = Some metadata_json"
    by simp_all
  from log_action_appends [OF this, of now db entity_type entity_id user_id]
  show "\<exists>row. al_action_type row = a_type \<and> al_created_at row = now
           \<and> al_metadata_json row = metadata_json
           \<and> audit_logs (step env settings now
                 (LogAction action_type entity_type entity_id user_id metadata) db)
               = audit_logs db @ [row]"
    by auto
next
  assume "audit_logs_enabled settings
        \<and> (ActionType_of_string action_type = None
             \<or> metadata_json_of (json_dumps env) metadata = None)"
  then have "audit_logs_enabled settings"
    "ActionType_of_string action_type = None
       \<or> metadata_json_of (json_dumps env) metadata = None"
    by simp_all
  then show "log_action settings (json_dumps env) now db action_type entity_type entity_id
          user_id metadata = (False, db)"
    by (rule log_action_fails)
next
  show "newest_rows limit (audit_logs db) (get_recent_system_logs db limit)"
    unfolding get_recent_system_logs_def by (rule newest_rows_take)
  show "newest_rows limit (project_rows db project_id)
        (get_project_audit_trail db project_id limit)"
    unfolding get_project_audit_trail_def project_rows_def by (rule newest_rows_take)
next
  assume "length (audit_logs (run env settings ops db)) \<le> limit"
  then have "set (get_recent_system_logs (run env settings ops db) limit)
               = set (audit_logs (run env settings ops db))"
    by (rule recent_logs_all)
  moreover have "set (audit_logs db) \<subseteq> set (audit_logs (run env settings ops db))"
    using run_prefix [of db env settings ops] by (rule set_mono_prefix)
  ultimately show "set (audit_logs db)
      \<subseteq> set (get_recent_system_logs (run env settings ops db) limit)"
    by simp
next
  assume "length (project_rows (run env settings ops db) project_id) \<le> limit"
  then have "set (get_project_audit_trail (run env settings ops db) project_id limit)
               = set (project_rows (run env settings ops db) project_id)"
    by (rule project_trail_all)
  moreover have "set (audit_logs db) \<subseteq> set (audit_logs (run env settings ops db))"
    using run_prefix [of db env settings ops] by (rule set_mono_prefix)
  then have "set (project_rows db project_id)
               \<subseteq> set (project_rows (run env settings ops db) project_id)"
    by (auto simp: project_rows_def)
  ultimately show "set (project_rows db project_id)
          \<subseteq> set (get_project_audit_trail (run env settings ops db) project_id limit)"
    by simp
qed

text \<open>
  The witness: after an audit append at time 2 and a compliance check, the store that
  held one row of time 1 holds two rows, and both queries return them newest first;
  with a serialiser that raises, an append with metadata returns False and writes
  nothing.
\<close>

theorem audit_log_append_only_witness:
  "audit_logs_enabled default_settings
   \<and> ActionType_of_string ''PROJECT_CREATED'' = Some PROJECT_CREATED
   \<and> metadata_json_of (json_dumps example_env) None = Some None
   \<and> audit_logs (run example_env default_settings two_operations one_audit_db)
       = [audit_row 1, audit_row 2]
   \<and> get_recent_system_logs
        (run example_env default_settings two_operations one_audit_db) 100
       = [audit_row 2, audit_row 1]
   \<and> get_project_audit_trail
        (run example_env default_settings two_operations one_audit_db) 1 100
       = [audit_row 2, audit_row 1]
   \<and> newest_rows 100 [audit_row 1, audit_row 2] [audit_row 2, audit_row 1]
   \<and> audit_logs (step example_env default_settings 3
        (ValidateFeatureAccess ''PATENT_CLAIM_GENERATION'') one_audit_db) = [audit_row 1]
   \<and> metadata_json_of (json_dumps failing_env) (Some [(''title'', ''idea'')]) = None
   \<and> log_action default_settings (json_dumps failing_env) 2 one_audit_db
        ''PROJECT_CREATED'' ''Project'' (Some 1) None (Some [(''title'', ''idea'')])
       = (False, one_audit_db)"
proof -
  let ?db = "run example_env default_settings two_operations one_audit_db"
  have a: "audit_logs_enabled default_settings"
    by (simp add: default_settings_def)
  have b: "ActionType_of_string ''PROJECT_CREATED'' = Some PROJECT_CREATED"
    by (simp add: ActionType_of_string_def)
  have m: "metadata_json_of (json_dumps example_env) None = Some None"
    by (simp add: metadata_json_of_def)
  have f: "metadata_json_of (json_dumps failing_env) (Some [(''title'', ''idea'')]) = None"
    by (simp add: metadata_json_of_def failing_env_def example_env_def)
  have c: "audit_logs ?db = [audit_row 1, audit_row 2]"
    by (simp add: two_operations_def one_audit_db_def empty_db_def log_action_def
        default_settings_def ActionType_of_string_def metadata_json_of_def Let_def
        audit_row_def next_id_def)
  have q: "get_recent_system_logs ?db 100 = [audit_row 2, audit_row 1]"
    "get_project_audit_trail ?db 1 100 = [audit_row 2, audit_row 1]"
    unfolding get_recent_system_logs_def get_project_audit_trail_def c
    by (simp_all add: newest_first_def audit_row_def)
  have d: "audit_logs one_audit_db = [audit_row 1]"
    by (simp add: one_audit_db_def empty_db_def)
  note t = audit_log_append_only
    [where db = one_audit_db and env = example_env and settings = default_settings
       and ops = two_operations and limit = 100 and project_id = 1
       and op = "ValidateFeatureAccess ''PATENT_CLAIM_GENERATION''" and now = 3
       and action_type = "''PROJECT_CREATED''" and a_type = PROJECT_CREATED
       and metadata = None and metadata_json = None]
  note t2 = audit_log_append_only
    [where db = ?db and env = example_env and settings = default_settings
       and ops = "[]" and limit = 100 and project_id = 1
       and op = "ValidateFeatureAccess ''PATENT_CLAIM_GENERATION''" and now = 3
       and action_type = "''PROJECT_CREATED''" and a_type = PROJECT_CREATED
       and metadata = None and metadata_json = None]
  note t3 = audit_log_append_only
    [where db = one_audit_db and env = failing_env and settings = default_settings
       and ops = "[]" and limit = 100 and project_id = 1
       and op = "ValidateFeatureAccess ''PATENT_CLAIM_GENERATION''" and now = 2
       and action_type = "''PROJECT_CREATED''" and a_type = PROJECT_CREATED
       and entity_type = "''Project''" and entity_id = "Some 1" and user_id = None
       and metadata = "Some [(''title'', ''idea'')]" and metadata_json = None]
  have n: "newest_rows 100 [audit_row 1, audit_row 2] [audit_row 2, audit_row 1]"
    using t2 c q by simp
  have k: "audit_logs (step example_env default_settings 3
        (ValidateFeatureAccess ''PATENT_CLAIM_GENERATION'') one_audit_db) = [audit_row 1]"
    using t d by simp
  have l: "log_action default_settings (json_dumps failing_env) 2 one_audit_db
        ''PROJECT_CREATED'' ''Project'' (Some 1) None (Some [(''title'', ''idea'')])
       = (False, one_audit_db)"
    using t3 a f by simp
  from a b m c q n k f l show ?thesis by simp
qed

section \<open>Where the code departs from its own documentation\<close>

text \<open>
  C2. The project-level verdict should be the more severe of the research risk and
  the patent risk. The code classifies the single highest score with the thresholds of
  that score's kind (under the comment "Overall risk (max of both)"). On the store with
  a paper scored 0.78 and a patent scored 0.76, its response carries research risk
  YELLOW and patent risk RED, whose more severe label is RED, yet the verdict it
  returns and stores in the analysis state is YELLOW.
\<close>

theorem novelty_risk_follows_top_score_only:
  "map_sum id
     (\<lambda>(r, db'). (nr_novelty_risk r, nr_research_risk r, nr_patent_risk r,
                  highest_severity (nr_research_risk r) (nr_patent_risk r),
                  map as_novelty_risk (analysis_states db')))
     (get_novelty_risk default_settings novelty_db 1)
   = Inr (YELLOW, YELLOW, RED, RED, [YELLOW])"
  by code_simp

text \<open>
  C4. The restricted-context test should cover the patent, legal, medical and
  financial domains, which the source lists in \<open>RESTRICTED_CONTEXTS\<close>. The code tests
  only \<open>project.type == ProjectType.PATENT\<close> and never reads that set. A project
  whose domain is "MEDICAL" (type RESEARCH) with five evidence rows and no feedback is
  not treated as restricted: it gets MEDIUM without a review recommendation and
  without the patent/legal note, where the restricted rule gives LOW on the same
  inputs.
\<close>

theorem medical_domain_not_restricted:
  "''MEDICAL'' \<in> RESTRICTED_CONTEXTS
   \<and> first_where (\<lambda>p. p_id p = 1) (projects medical_db)
       = Some \<lparr> p_id = 1, p_type = RESEARCH, p_domain = Some ''MEDICAL'' \<rparr>
   \<and> \<not> is_restricted_context \<lparr> p_id = 1, p_type = RESEARCH, p_domain = Some ''MEDICAL'' \<rparr>
   \<and> confidence_level (calculate_confidence medical_db 1) = MEDIUM
   \<and> \<not> human_review_recommended (calculate_confidence medical_db 1)
   \<and> calibration_notes (calculate_confidence medical_db 1) = [NOTE_NO_FEEDBACK]
   \<and> fst (apply_rules UNKNOWN 5 0 False True) = LOW"
  by (simp add: RESTRICTED_CONTEXTS_def is_restricted_context_def) code_simp

text \<open>
  C9. For a project id without a stored project the calibration should surface a
  not-found error and change nothing. \<open>calculate_confidence\<close> returns an ordinary
  LOW result with the note "Project not found", and \<open>get_or_create_calibration\<close>,
  which the endpoint calls without a check of its own, then inserts a calibration row
  for the unknown id: on the empty store and id 999 the store afterwards holds one
  calibration row of project 999.
\<close>

theorem calibration_of_unknown_project:
  "first_where (\<lambda>p. p_id p = 999) (projects empty_db) = None
   \<and> get_or_create_calibration empty_db 999 =
       (\<lparr> confidence_level = LOW, human_review_recommended = True,
          disagreement_flag = False, calibration_notes = [NOTE_PROJECT_NOT_FOUND],
          metrics = None \<rparr>,
        empty_db\<lparr> confidence_calibrations :=
          [\<lparr> cc_project_id = 999, cc_confidence_level = LOW,
             cc_human_review_recommended = True, cc_disagreement_flag = False,
             cc_calibration_notes = [NOTE_PROJECT_NOT_FOUND],
             cc_total_feedback_count = 0, cc_disagreement_count = 0,
             cc_evidence_count = 0 \<rparr>] \<rparr>)"
  by (simp add: get_or_create_calibration_def calculate_confidence_def first_where_def
      empty_db_def)

end
